theory Spec2Isabelle
  imports Main "HOL-Library.Word"
begin

unbundle bit_operations_syntax

section \<open>The STUN client of gortc/stun, embedded in HOL\<close>

text \<open>
  The development embeds \<^verbatim>\<open>client.go\<close> (the \<^verbatim>\<open>Client\<close> type and its methods), the
  test doubles of \<^verbatim>\<open>client_test.go\<close>, and the transaction agent. The sources of the
  agent (\<^verbatim>\<open>agent.go\<close>) and of the message codec (\<^verbatim>\<open>message.go\<close>) are not part of
  the source tree at hand: the agent is modelled from the specification, \<^verbatim>\<open>IsMessage\<close> is
  modelled from the specification, and \<^verbatim>\<open>Message.Decode\<close> is a parameter of every
  function that calls it.

  Conventions.
  \<^item> A Go \<^verbatim>\<open>error\<close> is \<open>error option\<close>: \<open>None\<close> is \<^verbatim>\<open>nil\<close>.
  \<^item> An interface value (\<^verbatim>\<open>ClientAgent\<close>, \<^verbatim>\<open>PacketConn\<close>) is a method table paired
    with the state of the object behind it; \<open>None\<close> is the \<^verbatim>\<open>nil\<close> interface.
    A method is a total function from the object's state to a result and a new state.
  \<^item> A function of the client returns an \<open>outcome\<close>: it returns a value, it panics,
    or it is still running when the fuel or the schedule it was given is used up.
  \<^item> \<open>client_calls\<close> is a ghost field: the log of the calls the client made on its
    agent, on its endpoint and on its close channel, in program order.
  \<^item> The mutex \<^verbatim>\<open>closedMux\<close> has no counterpart: every function of the model runs
    atomically. A background goroutine is scheduled when \<^verbatim>\<open>Close\<close> joins it.
  \<^item> The receiver \<^verbatim>\<open>c\<close> and the message \<^verbatim>\<open>m\<close> are non-nil pointers.
\<close>

subsection \<open>Values\<close>

type_synonym byte = "8 word"

text \<open>\<^verbatim>\<open>time.Time\<close> as a count of nanoseconds; \<^verbatim>\<open>time.Time{}\<close> is \<open>0\<close>.\<close>

type_synonym time = int

text \<open>\<^verbatim>\<open>net.Addr\<close>; the nil address is \<open>None :: addr option\<close>.\<close>

type_synonym addr = string

text \<open>A \<^verbatim>\<open>Handler\<close> is known by its identity only; the nil handler is \<open>None\<close>.\<close>

type_synonym handler = nat

text \<open>The two fields of \<^verbatim>\<open>Message\<close> that the client reads.\<close>

record Message =
  TransactionID :: "byte list"
  Raw :: "byte list"

datatype error =
    ErrNoConnection
  | ErrConnection
  | ErrNet
  | ErrClientClosed
  | ErrClientNotInitialized
  | ErrAgentClosed
  | ErrTransactionExists
  | ErrTransactionNotExists
  | ErrTransactionStopped
  | ErrTransactionTimeOut
  | StopErr (Err: "error option") (Cause: "error option")
  | CloseErr (AgentErr: "error option") (ConnectionErr: "error option")
  | io_EOF
  | io_ErrClosedPipe
  | io_ErrUnexpectedEOF
  | OtherError string

datatype panic =
    PanicError error
  | NilDereference
  | SliceBounds
  | CloseOfNilChannel
  | CloseOfClosedChannel
  | NegativeWaitGroup
  | NonPositiveTicker

datatype 'a outcome = Returned 'a | Panicked panic | Running

definition then_do :: "'a outcome \<Rightarrow> ('a \<Rightarrow> 'b outcome) \<Rightarrow> 'b outcome" where
  "then_do x f = (case x of Returned v \<Rightarrow> f v | Panicked p \<Rightarrow> Panicked p | Running \<Rightarrow> Running)"

subsection \<open>The interfaces \<^verbatim>\<open>ClientAgent\<close> and \<^verbatim>\<open>PacketConn\<close>\<close>

record 'a ClientAgent =
  ca_Process :: "Message \<Rightarrow> 'a \<Rightarrow> error option \<times> 'a"
  ca_Close :: "'a \<Rightarrow> error option \<times> 'a"
  ca_Start :: "byte list \<Rightarrow> time \<Rightarrow> handler \<Rightarrow> 'a \<Rightarrow> error option \<times> 'a"
  ca_Stop :: "byte list \<Rightarrow> 'a \<Rightarrow> error option \<times> 'a"
  ca_Collect :: "time \<Rightarrow> 'a \<Rightarrow> error option \<times> 'a"

text \<open>
  \<open>pc_ReadFrom b s\<close> is \<^verbatim>\<open>ReadFrom(b)\<close>: the triple \<^verbatim>\<open>(n, addr, err)\<close>, the
  buffer after the call, and the new state of the endpoint.
\<close>

record 'c PacketConn =
  pc_ReadFrom :: "byte list \<Rightarrow> 'c \<Rightarrow> (int \<times> addr option \<times> error option) \<times> byte list \<times> 'c"
  pc_WriteTo :: "byte list \<Rightarrow> addr option \<Rightarrow> 'c \<Rightarrow> (int \<times> error option) \<times> 'c"
  pc_Close :: "'c \<Rightarrow> error option \<times> 'c"
  pc_LocalAddr :: "'c \<Rightarrow> addr option"

subsection \<open>The client\<close>

datatype call =
    Call_Start "byte list" time handler
  | Call_Stop "byte list"
  | Call_Process Message
  | Call_Collect time
  | Call_AgentClose
  | Call_ReadFrom
  | Call_WriteTo "byte list" "addr option"
  | Call_ConnClose
  | Call_CloseSignal
  | Call_TickerStop

datatype goroutine = Go_readUntilClosed | Go_collectUntilClosed

text \<open>
  The struct \<^verbatim>\<open>Client\<close>. The channel \<^verbatim>\<open>close\<close> is \<open>None\<close> when nil, \<open>Some False\<close>
  when open and \<open>Some True\<close> once closed. \<open>client_wg\<close> is the counter of the wait group.
  \<open>client_goroutines\<close> (ghost) lists the background goroutines that were spawned and
  have not been joined; \<open>client_calls\<close> (ghost) is the call log.
\<close>

record ('a, 'c) Client =
  client_a :: "('a ClientAgent \<times> 'a) option"
  client_c :: "('c PacketConn \<times> 'c) option"
  client_serveraddr :: "addr option"
  client_close :: "bool option"
  client_gcRate :: int
  client_closed :: bool
  client_wg :: nat
  client_goroutines :: "goroutine list"
  client_calls :: "call list"

definition log_call :: "call \<Rightarrow> ('a, 'c) Client \<Rightarrow> ('a, 'c) Client" where
  "log_call x c = c\<lparr>client_calls := client_calls c @ [x]\<rparr>"

text \<open>Method calls through the interface fields \<^verbatim>\<open>c.a\<close> and \<^verbatim>\<open>c.c\<close>.\<close>

definition a_Start ::
  "byte list \<Rightarrow> time \<Rightarrow> handler \<Rightarrow> ('a, 'c) Client \<Rightarrow> (error option \<times> ('a, 'c) Client) outcome" where
  "a_Start tid d h c =
     (case client_a c of
        None \<Rightarrow> Panicked NilDereference
      | Some (ag, s) \<Rightarrow>
          (case ca_Start ag tid d h s of
             (err, s1) \<Rightarrow> Returned (err, log_call (Call_Start tid d h) (c\<lparr>client_a := Some (ag, s1)\<rparr>))))"

definition a_Stop ::
  "byte list \<Rightarrow> ('a, 'c) Client \<Rightarrow> (error option \<times> ('a, 'c) Client) outcome" where
  "a_Stop tid c =
     (case client_a c of
        None \<Rightarrow> Panicked NilDereference
      | Some (ag, s) \<Rightarrow>
          (case ca_Stop ag tid s of
             (err, s1) \<Rightarrow> Returned (err, log_call (Call_Stop tid) (c\<lparr>client_a := Some (ag, s1)\<rparr>))))"

definition a_Process ::
  "Message \<Rightarrow> ('a, 'c) Client \<Rightarrow> (error option \<times> ('a, 'c) Client) outcome" where
  "a_Process m c =
     (case client_a c of
        None \<Rightarrow> Panicked NilDereference
      | Some (ag, s) \<Rightarrow>
          (case ca_Process ag m s of
             (err, s1) \<Rightarrow> Returned (err, log_call (Call_Process m) (c\<lparr>client_a := Some (ag, s1)\<rparr>))))"

definition a_Collect ::
  "time \<Rightarrow> ('a, 'c) Client \<Rightarrow> (error option \<times> ('a, 'c) Client) outcome" where
  "a_Collect t c =
     (case client_a c of
        None \<Rightarrow> Panicked NilDereference
      | Some (ag, s) \<Rightarrow>
          (case ca_Collect ag t s of
             (err, s1) \<Rightarrow> Returned (err, log_call (Call_Collect t) (c\<lparr>client_a := Some (ag, s1)\<rparr>))))"

definition a_Close :: "('a, 'c) Client \<Rightarrow> (error option \<times> ('a, 'c) Client) outcome" where
  "a_Close c =
     (case client_a c of
        None \<Rightarrow> Panicked NilDereference
      | Some (ag, s) \<Rightarrow>
          (case ca_Close ag s of
             (err, s1) \<Rightarrow> Returned (err, log_call Call_AgentClose (c\<lparr>client_a := Some (ag, s1)\<rparr>))))"

definition c_ReadFrom ::
  "byte list \<Rightarrow> ('a, 'c) Client \<Rightarrow>
     ((int \<times> addr option \<times> error option) \<times> byte list \<times> ('a, 'c) Client) outcome" where
  "c_ReadFrom b c =
     (case client_c c of
        None \<Rightarrow> Panicked NilDereference
      | Some (pc, s) \<Rightarrow>
          (case pc_ReadFrom pc b s of
             (r, b1, s1) \<Rightarrow> Returned (r, b1, log_call Call_ReadFrom (c\<lparr>client_c := Some (pc, s1)\<rparr>))))"

definition c_WriteTo ::
  "byte list \<Rightarrow> addr option \<Rightarrow> ('a, 'c) Client \<Rightarrow> ((int \<times> error option) \<times> ('a, 'c) Client) outcome" where
  "c_WriteTo b raddr c =
     (case client_c c of
        None \<Rightarrow> Panicked NilDereference
      | Some (pc, s) \<Rightarrow>
          (case pc_WriteTo pc b raddr s of
             (r, s1) \<Rightarrow> Returned (r, log_call (Call_WriteTo b raddr) (c\<lparr>client_c := Some (pc, s1)\<rparr>))))"

definition c_Close :: "('a, 'c) Client \<Rightarrow> (error option \<times> ('a, 'c) Client) outcome" where
  "c_Close c =
     (case client_c c of
        None \<Rightarrow> Panicked NilDereference
      | Some (pc, s) \<Rightarrow>
          (case pc_Close pc s of
             (err, s1) \<Rightarrow> Returned (err, log_call Call_ConnClose (c\<lparr>client_c := Some (pc, s1)\<rparr>))))"

text \<open>\<^verbatim>\<open>checkInit\<close>: the connection, the agent or the close channel is nil.\<close>

definition checkInit :: "('a, 'c) Client \<Rightarrow> error option" where
  "checkInit c =
     (if client_c c = None \<or> client_a c = None \<or> client_close c = None
      then Some ErrClientNotInitialized else None)"

text \<open>\<^verbatim>\<open>StartTo\<close>.\<close>

definition Client_StartTo ::
  "Message \<Rightarrow> addr option \<Rightarrow> time \<Rightarrow> handler option \<Rightarrow> ('a, 'c) Client \<Rightarrow>
     (error option \<times> ('a, 'c) Client) outcome" where
  "Client_StartTo m raddr d h c =
     (case checkInit c of
        Some err \<Rightarrow> Returned (Some err, c)
      | None \<Rightarrow>
          if client_closed c then Returned (Some ErrClientClosed, c)
          else
            then_do
              (case h of
                 None \<Rightarrow> Returned (None, c)
               | Some hdl \<Rightarrow> a_Start (TransactionID m) d hdl c)
              (\<lambda>(startErr, c1).
                 case startErr of
                   Some err \<Rightarrow> Returned (Some err, c1)
                 | None \<Rightarrow>
                     then_do (c_WriteTo (Raw m) raddr c1)
                       (\<lambda>((n, err), c2).
                          if err \<noteq> None \<and> h \<noteq> None then
                            then_do (a_Stop (TransactionID m) c2)
                              (\<lambda>(stopErr, c3).
                                 if stopErr \<noteq> None then Returned (Some (StopErr stopErr err), c3)
                                 else Returned (err, c3))
                          else Returned (err, c2))))"

text \<open>\<^verbatim>\<open>Start\<close> and \<^verbatim>\<open>Indicate\<close>.\<close>

definition Client_Start ::
  "Message \<Rightarrow> time \<Rightarrow> handler option \<Rightarrow> ('a, 'c) Client \<Rightarrow> (error option \<times> ('a, 'c) Client) outcome" where
  "Client_Start m d h c = Client_StartTo m (client_serveraddr c) d h c"

definition Client_Indicate ::
  "Message \<Rightarrow> ('a, 'c) Client \<Rightarrow> (error option \<times> ('a, 'c) Client) outcome" where
  "Client_Indicate m c = Client_Start m 0 None c"

text \<open>
  \<^verbatim>\<open>DoTo\<close> and \<^verbatim>\<open>Do\<close>. The handler \<open>h\<close> is the \<^verbatim>\<open>callbackWaitHandler\<close> taken from
  the pool. \<open>wait\<close> stands for \<^verbatim>\<open>h.wait()\<close> followed by the read of the pair
  \<^verbatim>\<open>(message, eventErr)\<close> that the callback stored: it blocks until another goroutine
  delivers the event, which the model takes as a parameter.
\<close>

definition Client_DoTo ::
  "handler \<Rightarrow>
   (('a, 'c) Client \<Rightarrow> ((Message option \<times> error option) \<times> ('a, 'c) Client) outcome) \<Rightarrow>
   Message \<Rightarrow> addr option \<Rightarrow> time \<Rightarrow> ('a, 'c) Client \<Rightarrow>
     ((Message option \<times> error option) \<times> ('a, 'c) Client) outcome" where
  "Client_DoTo h wait m raddr d c =
     (case checkInit c of
        Some err \<Rightarrow> Returned ((None, Some err), c)
      | None \<Rightarrow>
          then_do (Client_StartTo m raddr d (Some h) c)
            (\<lambda>(err, c1).
               case err of
                 Some e \<Rightarrow> Returned ((None, Some e), c1)
               | None \<Rightarrow> wait c1))"

definition Client_Do ::
  "handler \<Rightarrow>
   (('a, 'c) Client \<Rightarrow> ((Message option \<times> error option) \<times> ('a, 'c) Client) outcome) \<Rightarrow>
   Message \<Rightarrow> time \<Rightarrow> ('a, 'c) Client \<Rightarrow>
     ((Message option \<times> error option) \<times> ('a, 'c) Client) outcome" where
  "Client_Do h wait m d c = Client_DoTo h wait m (client_serveraddr c) d c"

subsection \<open>Construction\<close>

text \<open>\<^verbatim>\<open>defaultTimeoutRate\<close>: 100 ms.\<close>

definition defaultTimeoutRate :: int where
  "defaultTimeoutRate = 100000000"

text \<open>A configuration option is a \<^verbatim>\<open>func(*Client) error\<close>.\<close>

type_synonym ('a, 'c) client_option = "('a, 'c) Client \<Rightarrow> error option \<times> ('a, 'c) Client"

definition WithTimeoutRate :: "int \<Rightarrow> ('a, 'c) client_option" where
  "WithTimeoutRate d = (\<lambda>c. (None, c\<lparr>client_gcRate := d\<rparr>))"

definition WithAgent :: "('a ClientAgent \<times> 'a) option \<Rightarrow> ('a, 'c) client_option" where
  "WithAgent a = (\<lambda>c. (None, c\<lparr>client_a := a\<rparr>))"

definition WithPacketConn :: "('c PacketConn \<times> 'c) option \<Rightarrow> ('a, 'c) client_option" where
  "WithPacketConn conn =
     (\<lambda>c. if client_c c \<noteq> None then (Some ErrConnection, c)
          else (None, c\<lparr>client_c := conn\<rparr>))"

definition WithSTUNServer :: "addr option \<Rightarrow> ('a, 'c) client_option" where
  "WithSTUNServer a = (\<lambda>c. (None, c\<lparr>client_serveraddr := a\<rparr>))"

text \<open>
  \<^verbatim>\<open>NewClient\<close>. \<open>new_Client\<close> is the struct literal it starts from and
  \<open>apply_options\<close> its loop over the options, which drops what each option returns.
  \<open>newAgent\<close> is the value of \<^verbatim>\<open>NewAgent(AgentOptions{})\<close>, in the agent type of the
  client. The finalizer has no counterpart.
\<close>

definition new_Client :: "('a, 'c) Client" where
  "new_Client =
     \<lparr>client_a = None, client_c = None, client_serveraddr = None,
      client_close = Some False, client_gcRate = defaultTimeoutRate,
      client_closed = False, client_wg = 0, client_goroutines = [],
      client_calls = []\<rparr>"

definition apply_options :: "('a, 'c) client_option list \<Rightarrow> ('a, 'c) Client \<Rightarrow> ('a, 'c) Client" where
  "apply_options options c = foldl (\<lambda>c option. snd (option c)) c options"

definition NewClient ::
  "('a ClientAgent \<times> 'a) \<Rightarrow> ('a, 'c) client_option list \<Rightarrow> error + ('a, 'c) Client" where
  "NewClient newAgent options =
     (let c = apply_options options new_Client
      in if client_c c = None then Inl ErrNoConnection
         else if client_a c = None then Inr (c\<lparr>client_a := Some newAgent\<rparr>)
         else Inr c)"

subsection \<open>Reading\<close>

text \<open>
  Modelled from the spec: the magic cookie (its source file is absent). "The magic cookie
  constant \<^verbatim>\<open>0x2112A442\<close> occupies bytes 4..8", big-endian.
\<close>

definition magicCookie :: "byte list" where
  "magicCookie = [0x21, 0x12, 0xA4, 0x42]"

text \<open>
  Modelled from the spec: \<^verbatim>\<open>IsMessage\<close> (its source file is absent). "Length \<open>\<ge>\<close> 20, top
  two bits of bytes[0] are zero, bytes[4..8] equal the magic cookie."
\<close>

definition IsMessage :: "byte list \<Rightarrow> bool" where
  "IsMessage b = (20 \<le> length b \<and> (b ! 0) AND 0xC0 = 0 \<and> take 4 (drop 4 b) = magicCookie)"

text \<open>
  \<^verbatim>\<open>ReadFrom\<close>. \<open>Decode\<close> is \<^verbatim>\<open>Message.Decode\<close> (its source file is absent): it takes
  the message whose \<^verbatim>\<open>Raw\<close> is the datagram and returns the error and the message with
  its header fields set. The fuel bounds the number of datagrams read; the slice
  expression \<^verbatim>\<open>b[:n]\<close> panics when \<open>n\<close> is out of range.
\<close>

fun Client_ReadFrom ::
  "(Message \<Rightarrow> error option \<times> Message) \<Rightarrow> nat \<Rightarrow> byte list \<Rightarrow> ('a, 'c) Client \<Rightarrow>
     ((int \<times> addr option \<times> error option) \<times> byte list \<times> ('a, 'c) Client) outcome" where
  "Client_ReadFrom Decode 0 b c = Running"
| "Client_ReadFrom Decode (Suc fuel) b c =
     then_do (c_ReadFrom b c)
       (\<lambda>((n, addr, err), b1, c1).
          if err \<noteq> None then Returned ((n, addr, err), b1, c1)
          else if n < 0 \<or> int (length b1) < n then Panicked SliceBounds
          else if \<not> IsMessage (take (nat n) b1) then Returned ((n, addr, err), b1, c1)
          else
            (case Decode \<lparr>TransactionID = replicate 12 0, Raw = take (nat n) b1\<rparr> of
               (Some derr, m) \<Rightarrow> Returned ((n, addr, err), b1, c1)
             | (None, m) \<Rightarrow>
                 then_do (a_Process m c1)
                   (\<lambda>(perr, c2).
                      if perr \<noteq> None then Returned ((n, addr, perr), b1, c2)
                      else Client_ReadFrom Decode fuel b1 c2)))"

text \<open>\<^verbatim>\<open>wg.Done()\<close>: a negative counter panics.\<close>

definition wg_Done :: "('a, 'c) Client \<Rightarrow> ('a, 'c) Client outcome" where
  "wg_Done c =
     (if client_wg c = 0 then Panicked NegativeWaitGroup
      else Returned (c\<lparr>client_wg := client_wg c - 1\<rparr>))"

text \<open>
  \<^verbatim>\<open>readUntilClosed\<close>. \<open>read_loop\<close> is its \<^verbatim>\<open>for\<close> loop: \<open>k\<close> bounds the number of
  iterations, \<open>j\<close> is the fuel of each \<^verbatim>\<open>ReadFrom\<close>. The \<^verbatim>\<open>select\<close> takes the case
  \<^verbatim>\<open><-c.close\<close> when the channel is closed and the default case otherwise.
\<close>

fun read_loop ::
  "(Message \<Rightarrow> error option \<times> Message) \<Rightarrow> nat \<Rightarrow> nat \<Rightarrow> byte list \<Rightarrow> ('a, 'c) Client \<Rightarrow>
     ('a, 'c) Client outcome" where
  "read_loop Decode 0 j buf c = Running"
| "read_loop Decode (Suc k) j buf c =
     (if client_close c = Some True then Returned c
      else
        then_do (Client_ReadFrom Decode j buf c)
          (\<lambda>((n, addr, err), buf1, c1).
             if err = Some ErrAgentClosed then Returned c1
             else read_loop Decode k j buf1 c1))"

definition readUntilClosed ::
  "(Message \<Rightarrow> error option \<times> Message) \<Rightarrow> nat \<Rightarrow> nat \<Rightarrow> ('a, 'c) Client \<Rightarrow> ('a, 'c) Client outcome" where
  "readUntilClosed Decode k j c = then_do (read_loop Decode k j (replicate 1024 0) c) wg_Done"

subsection \<open>Collecting\<close>

definition closedOrPanic :: "error option \<Rightarrow> unit outcome" where
  "closedOrPanic err =
     (case err of
        None \<Rightarrow> Returned ()
      | Some e \<Rightarrow> if e = ErrAgentClosed then Returned () else Panicked (PanicError e))"

definition Client_Collect ::
  "time \<Rightarrow> ('a, 'c) Client \<Rightarrow> (error option \<times> ('a, 'c) Client) outcome" where
  "Client_Collect gcTime c = a_Collect gcTime c"

text \<open>
  \<^verbatim>\<open>collectUntilClosed\<close>. The schedule lists the cases that the \<^verbatim>\<open>select\<close> takes, one for
  each iteration: the close signal, or a tick with its time. The case \<^verbatim>\<open><-c.close\<close> can
  be taken only when the channel is closed; when the schedule asks for it on an open
  channel the loop waits. \<^verbatim>\<open>time.NewTicker\<close> panics on a non-positive interval.
\<close>

datatype select_case = Case_close | Case_tick time

fun collect_loop :: "select_case list \<Rightarrow> ('a, 'c) Client \<Rightarrow> ('a, 'c) Client outcome" where
  "collect_loop [] c = Running"
| "collect_loop (Case_close # sel) c =
     (if client_close c = Some True then Returned (log_call Call_TickerStop c) else Running)"
| "collect_loop (Case_tick gcTime # sel) c =
     then_do (Client_Collect gcTime c)
       (\<lambda>(err, c1). then_do (closedOrPanic err) (\<lambda>u. collect_loop sel c1))"

definition collectUntilClosed :: "select_case list \<Rightarrow> ('a, 'c) Client \<Rightarrow> ('a, 'c) Client outcome" where
  "collectUntilClosed sel c =
     (if client_gcRate c \<le> 0 then Panicked NonPositiveTicker
      else then_do (collect_loop sel c) wg_Done)"

subsection \<open>Background goroutines and \<^verbatim>\<open>Close\<close>\<close>

definition ReadUntilClosed :: "('a, 'c) Client \<Rightarrow> ('a, 'c) Client" where
  "ReadUntilClosed c =
     c\<lparr>client_wg := client_wg c + 1,
       client_goroutines := client_goroutines c @ [Go_readUntilClosed]\<rparr>"

definition CollectUntilClosed :: "('a, 'c) Client \<Rightarrow> ('a, 'c) Client" where
  "CollectUntilClosed c =
     c\<lparr>client_wg := client_wg c + 1,
       client_goroutines := client_goroutines c @ [Go_collectUntilClosed]\<rparr>"

definition HandleTransactions :: "('a, 'c) Client \<Rightarrow> ('a, 'c) Client" where
  "HandleTransactions c = CollectUntilClosed (ReadUntilClosed c)"

text \<open>\<^verbatim>\<open>close(c.close)\<close>.\<close>

definition close_chan :: "('a, 'c) Client \<Rightarrow> ('a, 'c) Client outcome" where
  "close_chan c =
     (case client_close c of
        None \<Rightarrow> Panicked CloseOfNilChannel
      | Some True \<Rightarrow> Panicked CloseOfClosedChannel
      | Some False \<Rightarrow> Returned (log_call Call_CloseSignal (c\<lparr>client_close := Some True\<rparr>)))"

text \<open>
  \<^verbatim>\<open>c.wg.Wait()\<close>: the spawned goroutines run, each from the head of its loop, and the
  call returns when they have all returned and the counter is zero. \<open>k\<close> and \<open>j\<close> are the
  fuel of every reader, \<open>sel\<close> the schedule of every collector.
\<close>

fun run_goroutines ::
  "(Message \<Rightarrow> error option \<times> Message) \<Rightarrow> nat \<Rightarrow> nat \<Rightarrow> select_case list \<Rightarrow> goroutine list \<Rightarrow>
     ('a, 'c) Client \<Rightarrow> ('a, 'c) Client outcome" where
  "run_goroutines Decode k j sel [] c = Returned c"
| "run_goroutines Decode k j sel (Go_readUntilClosed # gs) c =
     then_do (readUntilClosed Decode k j c) (run_goroutines Decode k j sel gs)"
| "run_goroutines Decode k j sel (Go_collectUntilClosed # gs) c =
     then_do (collectUntilClosed sel c) (run_goroutines Decode k j sel gs)"

definition wg_Wait ::
  "(Message \<Rightarrow> error option \<times> Message) \<Rightarrow> nat \<Rightarrow> nat \<Rightarrow> select_case list \<Rightarrow>
     ('a, 'c) Client \<Rightarrow> ('a, 'c) Client outcome" where
  "wg_Wait Decode k j sel c =
     then_do (run_goroutines Decode k j sel (client_goroutines c) (c\<lparr>client_goroutines := []\<rparr>))
       (\<lambda>c1. if client_wg c1 = 0 then Returned c1 else Running)"

text \<open>\<^verbatim>\<open>Close\<close>.\<close>

definition Client_Close ::
  "(Message \<Rightarrow> error option \<times> Message) \<Rightarrow> nat \<Rightarrow> nat \<Rightarrow> select_case list \<Rightarrow>
     ('a, 'c) Client \<Rightarrow> (error option \<times> ('a, 'c) Client) outcome" where
  "Client_Close Decode k j sel c =
     (case checkInit c of
        Some err \<Rightarrow> Returned (Some err, c)
      | None \<Rightarrow>
          if client_closed c then Returned (Some ErrClientClosed, c)
          else
            then_do (a_Close (c\<lparr>client_closed := True\<rparr>))
              (\<lambda>(agentErr, c1).
                 then_do (c_Close c1)
                   (\<lambda>(connErr, c2).
                      then_do (close_chan c2)
                        (\<lambda>c3.
                           then_do (wg_Wait Decode k j sel c3)
                             (\<lambda>c4.
                                if agentErr = None \<and> connErr = None then Returned (None, c4)
                                else Returned (Some (CloseErr agentErr connErr), c4))))))"

subsection \<open>The transaction agent\<close>

text \<open>
  The agent's source file is absent; every definition of this subsection is modelled from
  the specification (section 4.3).
\<close>

text \<open>
  Modelled from the spec: the event type of the absent agent. "\<^verbatim>\<open>{transaction_id,
  message?, error?}\<close>".
\<close>

record Event =
  ev_TransactionID :: "byte list"
  ev_Message :: "Message option"
  ev_Error :: "error option"

text \<open>
  Modelled from the spec: the state of the absent agent. "A mapping (transaction id
  \<open>\<rightarrow>\<close> (deadline, handler)), a closed flag, and an optional default handler". The
  mapping is an association list in order of registration. \<open>agent_fired\<close> (ghost) logs
  every handler invocation with the event it was given.
\<close>

record Agent =
  agent_transactions :: "(byte list \<times> time \<times> handler) list"
  agent_closed :: bool
  agent_handler :: "handler option"
  agent_fired :: "(handler \<times> Event) list"

text \<open>
  Modelled from the spec: \<^verbatim>\<open>NewAgent\<close> of the absent agent, with the default handler of
  its options: no registration, not closed.
\<close>

definition NewAgent :: "handler option \<Rightarrow> Agent" where
  "NewAgent h = \<lparr>agent_transactions = [], agent_closed = False, agent_handler = h, agent_fired = []\<rparr>"

text \<open>Modelled from the spec: "fire handler" of the absent agent, as an entry of the log.\<close>

definition fire :: "handler \<Rightarrow> Event \<Rightarrow> Agent \<Rightarrow> Agent" where
  "fire h e ag = ag\<lparr>agent_fired := agent_fired ag @ [(h, e)]\<rparr>"

text \<open>Modelled from the spec: "remove" a registration of the absent agent.\<close>

definition remove_transaction :: "byte list \<Rightarrow> Agent \<Rightarrow> Agent" where
  "remove_transaction tid ag =
     ag\<lparr>agent_transactions := filter (\<lambda>t. fst t \<noteq> tid) (agent_transactions ag)\<rparr>"

text \<open>
  Modelled from the spec: \<^verbatim>\<open>Agent.Start\<close> of the absent agent. "register; fails with TRANSACTION_EXISTS on
  duplicate id; fails with AGENT_CLOSED if closed."
\<close>

definition Agent_Start :: "byte list \<Rightarrow> time \<Rightarrow> handler \<Rightarrow> Agent \<Rightarrow> error option \<times> Agent" where
  "Agent_Start tid d h ag =
     (if agent_closed ag then (Some ErrAgentClosed, ag)
      else if map_of (agent_transactions ag) tid \<noteq> None then (Some ErrTransactionExists, ag)
      else (None, ag\<lparr>agent_transactions := agent_transactions ag @ [(tid, d, h)]\<rparr>))"

text \<open>
  Modelled from the spec: \<^verbatim>\<open>Agent.Stop\<close> of the absent agent. "remove and fire handler with
  TRANSACTION_STOPPED; fails with TRANSACTION_NOT_EXISTS if unknown; fails with
  AGENT_CLOSED if closed."
\<close>

definition Agent_Stop :: "byte list \<Rightarrow> Agent \<Rightarrow> error option \<times> Agent" where
  "Agent_Stop tid ag =
     (if agent_closed ag then (Some ErrAgentClosed, ag)
      else
        (case map_of (agent_transactions ag) tid of
           None \<Rightarrow> (Some ErrTransactionNotExists, ag)
         | Some (d, h) \<Rightarrow>
             (None,
              fire h \<lparr>ev_TransactionID = tid, ev_Message = None, ev_Error = Some ErrTransactionStopped\<rparr>
                (remove_transaction tid ag))))"

text \<open>
  Modelled from the spec: \<^verbatim>\<open>Agent.Process\<close> of the absent agent. "look up by message's
  transaction id; if
  present, remove and fire handler with the message; if absent, hand to the default
  handler (if any); [...] it returns AGENT_CLOSED only if called post-close."
\<close>

definition Agent_Process :: "Message \<Rightarrow> Agent \<Rightarrow> error option \<times> Agent" where
  "Agent_Process m ag =
     (if agent_closed ag then (Some ErrAgentClosed, ag)
      else
        (let e = \<lparr>ev_TransactionID = TransactionID m, ev_Message = Some m, ev_Error = None\<rparr>
         in case map_of (agent_transactions ag) (TransactionID m) of
              Some (d, h) \<Rightarrow> (None, fire h e (remove_transaction (TransactionID m) ag))
            | None \<Rightarrow>
                (case agent_handler ag of
                   Some h \<Rightarrow> (None, fire h e ag)
                 | None \<Rightarrow> (None, ag))))"

text \<open>
  Modelled from the spec: the event that \<^verbatim>\<open>Agent.Collect\<close> of the absent agent fires,
  "TRANSACTION_TIMEOUT" for the identifier of the registration.
\<close>

definition timeout_event :: "byte list \<Rightarrow> Event" where
  "timeout_event tid =
     \<lparr>ev_TransactionID = tid, ev_Message = None, ev_Error = Some ErrTransactionTimeOut\<rparr>"

text \<open>
  Modelled from the spec: the loop of \<^verbatim>\<open>Agent.Collect\<close> of the absent agent. "for every
  registration whose deadline \<open>\<le>\<close> now, remove it and fire handler with
  TRANSACTION_TIMEOUT." The walk over the registry returns the registrations that stay
  and the events to fire.
\<close>

fun collect_walk ::
  "time \<Rightarrow> (byte list \<times> time \<times> handler) list \<Rightarrow>
     (byte list \<times> time \<times> handler) list \<times> (handler \<times> Event) list" where
  "collect_walk now [] = ([], [])"
| "collect_walk now ((tid, d, h) # ts) =
     (case collect_walk now ts of
        (keep, fired) \<Rightarrow>
          if d \<le> now then (keep, (h, timeout_event tid) # fired)
          else ((tid, d, h) # keep, fired))"

text \<open>
  Modelled from the spec: \<^verbatim>\<open>Agent.Collect\<close> of the absent agent. The spec names no
  failure of \<^verbatim>\<open>collect\<close>, so the error is nil.
\<close>

definition Agent_Collect :: "time \<Rightarrow> Agent \<Rightarrow> error option \<times> Agent" where
  "Agent_Collect now ag =
     (case collect_walk now (agent_transactions ag) of
        (keep, fired) \<Rightarrow>
          (None, ag\<lparr>agent_transactions := keep, agent_fired := agent_fired ag @ fired\<rparr>))"

text \<open>
  Modelled from the spec: \<^verbatim>\<open>Agent.Close\<close> of the absent agent. "set closed, drain all
  registrations firing
  AGENT_CLOSED to each. Idempotent calls return an error." The error of a repeated call
  is taken to be AGENT_CLOSED.
\<close>

definition Agent_Close :: "Agent \<Rightarrow> error option \<times> Agent" where
  "Agent_Close ag =
     (if agent_closed ag then (Some ErrAgentClosed, ag)
      else
        (None,
         ag\<lparr>agent_transactions := [], agent_closed := True,
            agent_fired := agent_fired ag @
              map (\<lambda>(tid, d, h).
                     (h, \<lparr>ev_TransactionID = tid, ev_Message = None, ev_Error = Some ErrAgentClosed\<rparr>))
                (agent_transactions ag)\<rparr>))"

text \<open>Modelled from the spec: the absent agent as a \<^verbatim>\<open>ClientAgent\<close>.\<close>

definition Agent_iface :: "Agent ClientAgent" where
  "Agent_iface =
     \<lparr>ca_Process = Agent_Process, ca_Close = Agent_Close, ca_Start = Agent_Start,
      ca_Stop = Agent_Stop, ca_Collect = Agent_Collect\<rparr>"

subsection \<open>The test doubles of \<^verbatim>\<open>client_test.go\<close>\<close>

record errorAgent =
  ea_startErr :: "error option"
  ea_stopErr :: "error option"
  ea_closeErr :: "error option"

definition errorAgent_iface :: "errorAgent ClientAgent" where
  "errorAgent_iface =
     \<lparr>ca_Process = (\<lambda>m a. (None, a)),
      ca_Close = (\<lambda>a. (ea_closeErr a, a)),
      ca_Start = (\<lambda>tid d h a. (ea_startErr a, a)),
      ca_Stop = (\<lambda>tid a. (ea_stopErr a, a)),
      ca_Collect = (\<lambda>t a. (None, a))\<rparr>"

record testConnection =
  tc_writeTo :: "byte list \<Rightarrow> addr option \<Rightarrow> int \<times> error option"
  tc_b :: "byte list"
  tc_stopped :: bool

definition testConnection_iface :: "testConnection PacketConn" where
  "testConnection_iface =
     \<lparr>pc_ReadFrom =
        (\<lambda>b t. if tc_stopped t then ((0, None, Some io_EOF), b, t)
               else ((int (min (length b) (length (tc_b t))), None, None),
                     take (length b) (tc_b t) @ drop (length (tc_b t)) b, t)),
      pc_WriteTo = (\<lambda>b raddr t. (tc_writeTo t b raddr, t)),
      pc_Close =
        (\<lambda>t. if tc_stopped t then (Some (OtherError ''already stopped''), t)
             else (None, t\<lparr>tc_stopped := True\<rparr>)),
      pc_LocalAddr = (\<lambda>t. None)\<rparr>"

definition noopConnection_iface :: "unit PacketConn" where
  "noopConnection_iface =
     \<lparr>pc_ReadFrom = (\<lambda>b u. ((0, None, Some io_EOF), b, u)),
      pc_WriteTo = (\<lambda>b raddr u. ((int (length b), None), u)),
      pc_Close = (\<lambda>u. (None, u)),
      pc_LocalAddr = (\<lambda>u. None)\<rparr>"

text \<open>The two \<^verbatim>\<open>writeTo\<close> closures of the tests.\<close>

definition writeTo_ok :: "byte list \<Rightarrow> addr option \<Rightarrow> int \<times> error option" where
  "writeTo_ok b raddr = (int (length b), None)"

definition writeTo_closed_pipe :: "byte list \<Rightarrow> addr option \<Rightarrow> int \<times> error option" where
  "writeTo_closed_pipe b raddr = (0, Some io_ErrClosedPipe)"

subsection \<open>Example values\<close>

text \<open>
  A binding request of twenty bytes, a client as \<^verbatim>\<open>NewClient\<close> builds it from
  \<^verbatim>\<open>WithAgent(errorAgent{...})\<close> and \<^verbatim>\<open>WithPacketConn(&testConnection{...})\<close>, and a
  \<^verbatim>\<open>Decode\<close> that reads the transaction identifier from the header.
\<close>

definition example_message :: Message where
  "example_message =
     \<lparr>TransactionID = [1, 2, 3, 4, 5, 6, 7, 8, 9, 10, 11, 12],
      Raw = [0, 1, 0, 0, 0x21, 0x12, 0xA4, 0x42, 1, 2, 3, 4, 5, 6, 7, 8, 9, 10, 11, 12]\<rparr>"

definition example_client :: "errorAgent \<Rightarrow> testConnection \<Rightarrow> (errorAgent, testConnection) Client" where
  "example_client a t =
     \<lparr>client_a = Some (errorAgent_iface, a), client_c = Some (testConnection_iface, t),
      client_serveraddr = None, client_close = Some False, client_gcRate = defaultTimeoutRate,
      client_closed = False, client_wg = 0, client_goroutines = [], client_calls = []\<rparr>"

definition no_errors :: errorAgent where
  "no_errors = \<lparr>ea_startErr = None, ea_stopErr = None, ea_closeErr = None\<rparr>"

definition example_Decode :: "Message \<Rightarrow> error option \<times> Message" where
  "example_Decode m = (None, m\<lparr>TransactionID := take 12 (drop 8 (Raw m))\<rparr>)"


text \<open>
  A client on the agent of the specification, a closed agent, an endpoint that delivers
  the example message on every read, an endpoint that was closed by its owner, and an
  agent with two registrations that are due at time 101 and one that is not.
\<close>

definition agent_client :: "Agent \<Rightarrow> testConnection \<Rightarrow> (Agent, testConnection) Client" where
  "agent_client a t =
     \<lparr>client_a = Some (Agent_iface, a), client_c = Some (testConnection_iface, t),
      client_serveraddr = None, client_close = Some False, client_gcRate = defaultTimeoutRate,
      client_closed = False, client_wg = 0, client_goroutines = [], client_calls = []\<rparr>"

definition closed_Agent :: Agent where
  "closed_Agent = (NewAgent None)\<lparr>agent_closed := True\<rparr>"

definition replying :: testConnection where
  "replying = \<lparr>tc_writeTo = writeTo_ok, tc_b = Raw example_message, tc_stopped = False\<rparr>"

definition stopped_conn :: testConnection where
  "stopped_conn = \<lparr>tc_writeTo = writeTo_ok, tc_b = [], tc_stopped = True\<rparr>"

definition gc_example :: Agent where
  "gc_example =
     \<lparr>agent_transactions =
        [([1, 1, 1, 1, 1, 1, 1, 1, 1, 1, 1, 1], 100, 8),
         ([2, 2, 2, 2, 2, 2, 2, 2, 2, 2, 2, 2], 100, 8),
         ([3, 3, 3, 3, 3, 3, 3, 3, 3, 3, 3, 3], 86501, 9)],
      agent_closed = False, agent_handler = Some 0, agent_fired = []\<rparr>"

section \<open>Properties\<close>

subsection \<open>Sequencing of outcomes\<close>

lemma then_do_Returned [simp]: "then_do (Returned v) f = f v"
  and then_do_Panicked [simp]: "then_do (Panicked p) f = Panicked p"
  and then_do_Running [simp]: "then_do Running f = Running"
  by (simp_all add: then_do_def)

subsection \<open>Starting a transaction\<close>

text \<open>
  Claim C1. On an initialised client that is not closed, \<^verbatim>\<open>StartTo\<close> with a non-nil
  handler first calls \<^verbatim>\<open>Start\<close> on the agent; when the registration fails it returns
  that error and writes nothing. Otherwise it writes \<^verbatim>\<open>m.Raw\<close> to the address. When the
  write fails it calls \<^verbatim>\<open>Stop\<close> with the transaction identifier before it returns, and
  returns the write error, or \<^verbatim>\<open>StopErr\<close> with the write error as \<^verbatim>\<open>Cause\<close> and the
  stop error as \<^verbatim>\<open>Err\<close> when \<^verbatim>\<open>Stop\<close> fails too. The call log gives the order.
\<close>

theorem StartTo_registers_then_writes:
  assumes a: "client_a c = Some (ag, s)"
    and cc: "client_c c = Some (pc, t)"
    and ch: "client_close c \<noteq> None"
    and op: "\<not> client_closed c"
  shows "Client_StartTo m raddr d (Some h) c =
     (case ca_Start ag (TransactionID m) d h s of
        (Some serr, s1) \<Rightarrow>
          Returned (Some serr,
            c\<lparr>client_a := Some (ag, s1),
              client_calls := client_calls c @ [Call_Start (TransactionID m) d h]\<rparr>)
      | (None, s1) \<Rightarrow>
          (case pc_WriteTo pc (Raw m) raddr t of
             ((n, None), t1) \<Rightarrow>
               Returned (None,
                 c\<lparr>client_a := Some (ag, s1), client_c := Some (pc, t1),
                   client_calls := client_calls c @
                     [Call_Start (TransactionID m) d h, Call_WriteTo (Raw m) raddr]\<rparr>)
           | ((n, Some werr), t1) \<Rightarrow>
               (case ca_Stop ag (TransactionID m) s1 of
                  (perr, s2) \<Rightarrow>
                    Returned
                      (if perr = None then Some werr
                       else Some (StopErr perr (Some werr)),
                       c\<lparr>client_a := Some (ag, s2), client_c := Some (pc, t1),
                         client_calls := client_calls c @
                           [Call_Start (TransactionID m) d h, Call_WriteTo (Raw m) raddr,
                            Call_Stop (TransactionID m)]\<rparr>))))"
  using assms
  by (auto simp: Client_StartTo_def checkInit_def a_Start_def c_WriteTo_def a_Stop_def log_call_def
      split: prod.splits option.splits)

text \<open>
  The scenario of \<^verbatim>\<open>TestClientConnErrStopErr\<close>: the write fails with a closed pipe and
  the agent's \<^verbatim>\<open>Stop\<close> fails with an unexpected end of file.
\<close>

theorem StartTo_registers_then_writes_witness:
  "client_a (example_client (no_errors\<lparr>ea_stopErr := Some io_ErrUnexpectedEOF\<rparr>)
       \<lparr>tc_writeTo = writeTo_closed_pipe, tc_b = [], tc_stopped = False\<rparr>) =
     Some (errorAgent_iface, no_errors\<lparr>ea_stopErr := Some io_ErrUnexpectedEOF\<rparr>) \<and>
   client_c (example_client (no_errors\<lparr>ea_stopErr := Some io_ErrUnexpectedEOF\<rparr>)
       \<lparr>tc_writeTo = writeTo_closed_pipe, tc_b = [], tc_stopped = False\<rparr>) =
     Some (testConnection_iface, \<lparr>tc_writeTo = writeTo_closed_pipe, tc_b = [], tc_stopped = False\<rparr>) \<and>
   client_close (example_client (no_errors\<lparr>ea_stopErr := Some io_ErrUnexpectedEOF\<rparr>)
       \<lparr>tc_writeTo = writeTo_closed_pipe, tc_b = [], tc_stopped = False\<rparr>) \<noteq> None \<and>
   \<not> client_closed (example_client (no_errors\<lparr>ea_stopErr := Some io_ErrUnexpectedEOF\<rparr>)
       \<lparr>tc_writeTo = writeTo_closed_pipe, tc_b = [], tc_stopped = False\<rparr>) \<and>
   Client_StartTo example_message (Some ''gortc.io:3478'') 0 (Some 1)
       (example_client (no_errors\<lparr>ea_stopErr := Some io_ErrUnexpectedEOF\<rparr>)
          \<lparr>tc_writeTo = writeTo_closed_pipe, tc_b = [], tc_stopped = False\<rparr>) =
     Returned
       (Some (StopErr (Some io_ErrUnexpectedEOF) (Some io_ErrClosedPipe)),
        (example_client (no_errors\<lparr>ea_stopErr := Some io_ErrUnexpectedEOF\<rparr>)
           \<lparr>tc_writeTo = writeTo_closed_pipe, tc_b = [], tc_stopped = False\<rparr>)
          \<lparr>client_calls :=
             [Call_Start (TransactionID example_message) 0 1,
              Call_WriteTo (Raw example_message) (Some ''gortc.io:3478''),
              Call_Stop (TransactionID example_message)]\<rparr>)"
proof -
  let ?a = "no_errors\<lparr>ea_stopErr := Some io_ErrUnexpectedEOF\<rparr>"
  let ?t = "\<lparr>tc_writeTo = writeTo_closed_pipe, tc_b = [], tc_stopped = False\<rparr>"
  have 1: "client_a (example_client ?a ?t) = Some (errorAgent_iface, ?a)"
    by (simp add: example_client_def)
  have 2: "client_c (example_client ?a ?t) = Some (testConnection_iface, ?t)"
    by (simp add: example_client_def)
  have 3: "client_close (example_client ?a ?t) \<noteq> None"
    by (simp add: example_client_def)
  have 4: "\<not> client_closed (example_client ?a ?t)"
    by (simp add: example_client_def)
  show ?thesis
    using 1 2 3 4
      StartTo_registers_then_writes [OF 1 2 3 4, of example_message "Some ''gortc.io:3478''" 0 1]
    by (simp add: errorAgent_iface_def testConnection_iface_def writeTo_closed_pipe_def
        no_errors_def example_client_def)
qed

text \<open>
  Claim C7. \<^verbatim>\<open>Indicate(m)\<close> is \<^verbatim>\<open>StartTo\<close> with the server address, the zero deadline and
  the nil handler. On an initialised client that is not closed it writes \<^verbatim>\<open>m.Raw\<close> to the
  server address and returns the error of the write as it is; in every state the agent
  is left as it was, and the only call that can be added to the log is that write.
\<close>

theorem Indicate_is_StartTo_without_handler:
  "Client_Indicate m c = Client_StartTo m (client_serveraddr c) 0 None c \<and>
   (client_a c \<noteq> None \<and> client_c c = Some (pc, t) \<and> client_close c \<noteq> None \<and> \<not> client_closed c \<longrightarrow>
      Client_Indicate m c =
        Returned (snd (fst (pc_WriteTo pc (Raw m) (client_serveraddr c) t)),
          c\<lparr>client_c := Some (pc, snd (pc_WriteTo pc (Raw m) (client_serveraddr c) t)),
            client_calls := client_calls c @ [Call_WriteTo (Raw m) (client_serveraddr c)]\<rparr>)) \<and>
   (\<forall>err c'. Client_Indicate m c = Returned (err, c') \<longrightarrow>
      client_a c' = client_a c \<and>
      (client_calls c' = client_calls c \<or>
       client_calls c' = client_calls c @ [Call_WriteTo (Raw m) (client_serveraddr c)]))"
  by (auto simp: Client_Indicate_def Client_Start_def Client_StartTo_def checkInit_def
      c_WriteTo_def log_call_def split: prod.splits option.splits if_splits)

theorem Indicate_is_StartTo_without_handler_witness:
  "client_a (example_client no_errors \<lparr>tc_writeTo = writeTo_ok, tc_b = [], tc_stopped = False\<rparr>) \<noteq> None \<and>
   Client_Indicate example_message
       (example_client no_errors \<lparr>tc_writeTo = writeTo_ok, tc_b = [], tc_stopped = False\<rparr>) =
     Returned (None,
       (example_client no_errors \<lparr>tc_writeTo = writeTo_ok, tc_b = [], tc_stopped = False\<rparr>)
         \<lparr>client_calls := [Call_WriteTo (Raw example_message) None]\<rparr>)"
proof -
  let ?t = "\<lparr>tc_writeTo = writeTo_ok, tc_b = [], tc_stopped = False\<rparr>"
  let ?c = "example_client no_errors ?t"
  have 1: "client_a ?c \<noteq> None"
    by (simp add: example_client_def)
  have 2: "client_c ?c = Some (testConnection_iface, ?t)"
    by (simp add: example_client_def)
  have 3: "client_close ?c \<noteq> None" and 4: "\<not> client_closed ?c"
    by (simp_all add: example_client_def)
  have "Client_Indicate example_message ?c =
      Returned (snd (fst (pc_WriteTo testConnection_iface (Raw example_message) (client_serveraddr ?c) ?t)),
        ?c\<lparr>client_c := Some (testConnection_iface,
               snd (pc_WriteTo testConnection_iface (Raw example_message) (client_serveraddr ?c) ?t)),
           client_calls := client_calls ?c @ [Call_WriteTo (Raw example_message) (client_serveraddr ?c)]\<rparr>)"
    using 1 2 3 4
      Indicate_is_StartTo_without_handler [of example_message ?c testConnection_iface ?t]
    by blast
  then show ?thesis
    using 1 by (simp add: example_client_def testConnection_iface_def writeTo_ok_def)
qed

text \<open>
  Claim C10. On an initialised client whose closed flag is set, \<^verbatim>\<open>StartTo\<close> returns
  \<^verbatim>\<open>ErrClientClosed\<close> and the state of the client, with its agent, its endpoint and its
  call log, is the one before the call; so do \<^verbatim>\<open>Start\<close>, \<^verbatim>\<open>Indicate\<close>, \<^verbatim>\<open>DoTo\<close> and
  \<^verbatim>\<open>Do\<close>.
\<close>

theorem StartTo_on_closed_client:
  assumes "checkInit c = None" and "client_closed c"
  shows "Client_StartTo m raddr d h c = Returned (Some ErrClientClosed, c) \<and>
     Client_Start m d h c = Returned (Some ErrClientClosed, c) \<and>
     Client_Indicate m c = Returned (Some ErrClientClosed, c) \<and>
     Client_DoTo h' wait m raddr d c = Returned ((None, Some ErrClientClosed), c) \<and>
     Client_Do h' wait m d c = Returned ((None, Some ErrClientClosed), c)"
  using assms
  by (simp add: Client_StartTo_def Client_Start_def Client_Indicate_def Client_DoTo_def
      Client_Do_def)

theorem StartTo_on_closed_client_witness:
  "checkInit ((example_client no_errors \<lparr>tc_writeTo = writeTo_ok, tc_b = [], tc_stopped = True\<rparr>)
       \<lparr>client_closed := True\<rparr>) = None \<and>
   client_closed ((example_client no_errors \<lparr>tc_writeTo = writeTo_ok, tc_b = [], tc_stopped = True\<rparr>)
       \<lparr>client_closed := True\<rparr>) \<and>
   Client_StartTo example_message None 5 (Some 1)
       ((example_client no_errors \<lparr>tc_writeTo = writeTo_ok, tc_b = [], tc_stopped = True\<rparr>)
          \<lparr>client_closed := True\<rparr>) =
     Returned (Some ErrClientClosed,
       (example_client no_errors \<lparr>tc_writeTo = writeTo_ok, tc_b = [], tc_stopped = True\<rparr>)
          \<lparr>client_closed := True\<rparr>)"
proof -
  let ?c = "(example_client no_errors \<lparr>tc_writeTo = writeTo_ok, tc_b = [], tc_stopped = True\<rparr>)
       \<lparr>client_closed := True\<rparr>"
  have 1: "checkInit ?c = None"
    by (simp add: checkInit_def example_client_def)
  have 2: "client_closed ?c"
    by simp
  show ?thesis
    using 1 2 StartTo_on_closed_client [OF 1 2, of example_message None 5 "Some 1"]
    by simp
qed

subsection \<open>Closing\<close>

text \<open>
  Once the close channel is closed, every spawned goroutine returns at its next
  \<^verbatim>\<open>select\<close>: the reader without reading, the collector after stopping its ticker.
\<close>

lemma run_goroutines_signalled:
  assumes "client_close c = Some True"
    and "length gs \<le> client_wg c"
    and "Go_collectUntilClosed \<in> set gs \<longrightarrow> 0 < client_gcRate c"
  shows "run_goroutines Decode (Suc k) j (Case_close # sel) gs c =
     Returned (c\<lparr>client_wg := client_wg c - length gs,
                client_calls := client_calls c @
                  replicate (length (filter (\<lambda>g. g = Go_collectUntilClosed) gs)) Call_TickerStop\<rparr>)"
  using assms
proof (induction gs arbitrary: c)
  case Nil
  then show ?case by simp
next
  case (Cons g gs)
  show ?case
  proof (cases g)
    case Go_readUntilClosed
    let ?c1 = "c\<lparr>client_wg := client_wg c - 1\<rparr>"
    have step: "readUntilClosed Decode (Suc k) j c = Returned ?c1"
      using Cons.prems by (simp add: readUntilClosed_def wg_Done_def)
    have "run_goroutines Decode (Suc k) j (Case_close # sel) gs ?c1 =
      Returned (?c1\<lparr>client_wg := client_wg ?c1 - length gs,
                client_calls := client_calls ?c1 @
                  replicate (length (filter (\<lambda>g. g = Go_collectUntilClosed) gs)) Call_TickerStop\<rparr>)"
      using Cons.prems by (intro Cons.IH) auto
    then show ?thesis using step Go_readUntilClosed by simp
  next
    case Go_collectUntilClosed
    let ?c1 = "c\<lparr>client_calls := client_calls c @ [Call_TickerStop], client_wg := client_wg c - 1\<rparr>"
    have step: "collectUntilClosed (Case_close # sel) c = Returned ?c1"
      using Cons.prems Go_collectUntilClosed
      by (simp add: collectUntilClosed_def wg_Done_def log_call_def)
    have "run_goroutines Decode (Suc k) j (Case_close # sel) gs ?c1 =
      Returned (?c1\<lparr>client_wg := client_wg ?c1 - length gs,
                client_calls := client_calls ?c1 @
                  replicate (length (filter (\<lambda>g. g = Go_collectUntilClosed) gs)) Call_TickerStop\<rparr>)"
      using Cons.prems by (intro Cons.IH) auto
    then show ?thesis using step Go_collectUntilClosed by (simp add: replicate_append_same)
  qed
qed

text \<open>
  Claim C2. The first \<^verbatim>\<open>Close\<close> of an initialised client sets the closed flag, closes the
  agent and then the endpoint, closes the close channel, joins the background goroutines
  (the counter of the wait group is zero afterwards), and returns nil when both closes
  returned nil and \<^verbatim>\<open>CloseErr\<close> with the two errors otherwise. A \<^verbatim>\<open>Close\<close> of the client it
  leaves returns \<^verbatim>\<open>ErrClientClosed\<close> and changes nothing.
\<close>

theorem Close_first_and_second:
  assumes a: "client_a c = Some (ag, s)"
    and cc: "client_c c = Some (pc, t)"
    and ch: "client_close c = Some False"
    and op: "\<not> client_closed c"
    and wg: "client_wg c = length (client_goroutines c)"
    and rate: "Go_collectUntilClosed \<in> set (client_goroutines c) \<longrightarrow> 0 < client_gcRate c"
  shows "\<exists>c'. Client_Close Decode (Suc k) j (Case_close # sel) c =
       Returned
         (if fst (ca_Close ag s) = None \<and> fst (pc_Close pc t) = None then None
          else Some (CloseErr (fst (ca_Close ag s)) (fst (pc_Close pc t))), c') \<and>
     c' = c\<lparr>client_a := Some (ag, snd (ca_Close ag s)),
            client_c := Some (pc, snd (pc_Close pc t)),
            client_close := Some True, client_closed := True,
            client_wg := 0, client_goroutines := [],
            client_calls := client_calls c @
              [Call_AgentClose, Call_ConnClose, Call_CloseSignal] @
              replicate (length (filter (\<lambda>g. g = Go_collectUntilClosed) (client_goroutines c)))
                Call_TickerStop\<rparr> \<and>
     Client_Close Decode k2 j2 sel2 c' = Returned (Some ErrClientClosed, c')"
proof -
  obtain agentErr s1 where ac: "ca_Close ag s = (agentErr, s1)" by (cases "ca_Close ag s")
  obtain connErr t1 where pcl: "pc_Close pc t = (connErr, t1)" by (cases "pc_Close pc t")
  let ?c3 = "c\<lparr>client_closed := True, client_a := Some (ag, s1), client_c := Some (pc, t1),
       client_close := Some True,
       client_calls := client_calls c @ [Call_AgentClose, Call_ConnClose, Call_CloseSignal],
       client_goroutines := []\<rparr>"
  have run: "run_goroutines Decode (Suc k) j (Case_close # sel) (client_goroutines c) ?c3 =
     Returned (?c3\<lparr>client_wg := client_wg ?c3 - length (client_goroutines c),
                client_calls := client_calls ?c3 @
                  replicate (length (filter (\<lambda>g. g = Go_collectUntilClosed) (client_goroutines c))) Call_TickerStop\<rparr>)"
    using wg rate by (intro run_goroutines_signalled) auto
  show ?thesis
    using a cc ch op wg ac pcl run
    by (simp add: Client_Close_def checkInit_def a_Close_def c_Close_def close_chan_def
        wg_Wait_def log_call_def)
qed

text \<open>
  The scenario of \<^verbatim>\<open>TestClientCloseErr\<close>: both goroutines run and the agent fails to close.
\<close>

theorem Close_first_and_second_witness:
  "Client_Close example_Decode (Suc 0) 0 [Case_close]
       (HandleTransactions
          (example_client (no_errors\<lparr>ea_closeErr := Some io_ErrUnexpectedEOF\<rparr>)
             \<lparr>tc_writeTo = writeTo_ok, tc_b = [], tc_stopped = False\<rparr>)) =
     Returned
       (Some (CloseErr (Some io_ErrUnexpectedEOF) None),
        (example_client (no_errors\<lparr>ea_closeErr := Some io_ErrUnexpectedEOF\<rparr>)
           \<lparr>tc_writeTo = writeTo_ok, tc_b = [], tc_stopped = True\<rparr>)
          \<lparr>client_close := Some True, client_closed := True,
            client_calls :=
              [Call_AgentClose, Call_ConnClose, Call_CloseSignal, Call_TickerStop]\<rparr>) \<and>
   Client_Close example_Decode 0 0 []
       ((example_client (no_errors\<lparr>ea_closeErr := Some io_ErrUnexpectedEOF\<rparr>)
           \<lparr>tc_writeTo = writeTo_ok, tc_b = [], tc_stopped = True\<rparr>)
          \<lparr>client_close := Some True, client_closed := True,
            client_calls :=
              [Call_AgentClose, Call_ConnClose, Call_CloseSignal, Call_TickerStop]\<rparr>) =
     Returned
       (Some ErrClientClosed,
        (example_client (no_errors\<lparr>ea_closeErr := Some io_ErrUnexpectedEOF\<rparr>)
           \<lparr>tc_writeTo = writeTo_ok, tc_b = [], tc_stopped = True\<rparr>)
          \<lparr>client_close := Some True, client_closed := True,
            client_calls :=
              [Call_AgentClose, Call_ConnClose, Call_CloseSignal, Call_TickerStop]\<rparr>)"
proof -
  let ?a = "no_errors\<lparr>ea_closeErr := Some io_ErrUnexpectedEOF\<rparr>"
  let ?t = "\<lparr>tc_writeTo = writeTo_ok, tc_b = [], tc_stopped = False\<rparr>"
  let ?c = "HandleTransactions (example_client ?a ?t)"
  have 1: "client_a ?c = Some (errorAgent_iface, ?a)"
    by (simp add: HandleTransactions_def CollectUntilClosed_def ReadUntilClosed_def example_client_def)
  have 2: "client_c ?c = Some (testConnection_iface, ?t)"
    by (simp add: HandleTransactions_def CollectUntilClosed_def ReadUntilClosed_def example_client_def)
  have 3: "client_close ?c = Some False"
    by (simp add: HandleTransactions_def CollectUntilClosed_def ReadUntilClosed_def example_client_def)
  have 4: "\<not> client_closed ?c"
    by (simp add: HandleTransactions_def CollectUntilClosed_def ReadUntilClosed_def example_client_def)
  have 5: "client_wg ?c = length (client_goroutines ?c)"
    by (simp add: HandleTransactions_def CollectUntilClosed_def ReadUntilClosed_def example_client_def)
  have 6: "Go_collectUntilClosed \<in> set (client_goroutines ?c) \<longrightarrow> 0 < client_gcRate ?c"
    by (simp add: HandleTransactions_def CollectUntilClosed_def ReadUntilClosed_def example_client_def
        defaultTimeoutRate_def)
  show ?thesis
    using Close_first_and_second [OF 1 2 3 4 5 6, of example_Decode 0 0 "[]" 0 0 "[]"]
    by (simp add: HandleTransactions_def CollectUntilClosed_def ReadUntilClosed_def example_client_def
        errorAgent_iface_def testConnection_iface_def no_errors_def)
qed

subsection \<open>Construction\<close>

lemma apply_options_keeps_conn:
  "(\<forall>opt\<in>set options. \<forall>c. client_c (snd (opt c)) = client_c c) \<Longrightarrow>
     client_c (apply_options options c0) = client_c c0"
  unfolding apply_options_def
  by (induction options arbitrary: c0) auto

text \<open>
  Claim C9. \<^verbatim>\<open>NewClient\<close> never returns an error of an option: the only error it returns
  is \<^verbatim>\<open>ErrNoConnection\<close>, exactly when the connection is nil after the options have run,
  which is the case when no option changes the connection. With two \<^verbatim>\<open>WithPacketConn\<close>
  options the second returns \<^verbatim>\<open>ErrConnection\<close>, and \<^verbatim>\<open>NewClient\<close> succeeds with the first
  connection.
\<close>

theorem NewClient_discards_option_errors:
  "(\<forall>e. NewClient newAgent options = Inl e \<longrightarrow> e = ErrNoConnection) \<and>
   (NewClient newAgent options = Inl ErrNoConnection \<longleftrightarrow>
      client_c (apply_options options new_Client) = None) \<and>
   ((\<forall>opt\<in>set options. \<forall>c. client_c (snd (opt c)) = client_c c) \<longrightarrow>
      NewClient newAgent options = Inl ErrNoConnection) \<and>
   fst (WithPacketConn (Some b) (apply_options [WithPacketConn (Some a)] new_Client)) =
     Some ErrConnection \<and>
   NewClient newAgent [WithPacketConn (Some a), WithPacketConn (Some b)] =
     Inr (new_Client\<lparr>client_a := Some newAgent, client_c := Some a\<rparr>)"
proof -
  have "client_c (new_Client :: ('a, 'b) Client) = None"
    by (simp add: new_Client_def)
  then have "(\<forall>opt\<in>set options. \<forall>c. client_c (snd (opt c)) = client_c c) \<longrightarrow>
      client_c (apply_options options (new_Client :: ('a, 'b) Client)) = None"
    using apply_options_keeps_conn [of options new_Client] by auto
  then show ?thesis
    by (auto simp: NewClient_def Let_def apply_options_def WithPacketConn_def new_Client_def)
qed

theorem NewClient_discards_option_errors_witness:
  "NewClient (Agent_iface, NewAgent None)
       ([WithSTUNServer (Some ''gortc.io:3478''), WithTimeoutRate 5]
          :: (Agent, testConnection) client_option list) = Inl ErrNoConnection \<and>
   NewClient (Agent_iface, NewAgent None)
       [WithPacketConn (Some (testConnection_iface, \<lparr>tc_writeTo = writeTo_ok, tc_b = [], tc_stopped = False\<rparr>)),
        WithPacketConn (Some (testConnection_iface, \<lparr>tc_writeTo = writeTo_closed_pipe, tc_b = [], tc_stopped = False\<rparr>))] =
     Inr (new_Client\<lparr>client_a := Some (Agent_iface, NewAgent None),
            client_c := Some (testConnection_iface, \<lparr>tc_writeTo = writeTo_ok, tc_b = [], tc_stopped = False\<rparr>)\<rparr>)"
proof -
  let ?opts = "[WithSTUNServer (Some ''gortc.io:3478''), WithTimeoutRate 5]
        :: (Agent, testConnection) client_option list"
  have 1: "\<forall>opt\<in>set ?opts. \<forall>c. client_c (snd (opt c)) = client_c c"
    by (simp add: WithSTUNServer_def WithTimeoutRate_def)
  show ?thesis
    using 1 NewClient_discards_option_errors [of "(Agent_iface, NewAgent None)" ?opts]
      NewClient_discards_option_errors [of "(Agent_iface, NewAgent None)" "[]"
        "(testConnection_iface, \<lparr>tc_writeTo = writeTo_closed_pipe, tc_b = [], tc_stopped = False\<rparr>)"
        "(testConnection_iface, \<lparr>tc_writeTo = writeTo_ok, tc_b = [], tc_stopped = False\<rparr>)"]
    by blast
qed

subsection \<open>The collector loop\<close>





subsection \<open>Reading datagrams\<close>

text \<open>One pass through the loop of \<^verbatim>\<open>ReadFrom\<close>, by what the endpoint returned.\<close>

lemma ReadFrom_read_error:
  assumes "client_c c = Some (pc, t)"
    and "pc_ReadFrom pc b t = ((n, addr, Some e), b1, t1)"
  shows "Client_ReadFrom Decode (Suc fuel) b c =
     Returned ((n, addr, Some e), b1,
       c\<lparr>client_c := Some (pc, t1), client_calls := client_calls c @ [Call_ReadFrom]\<rparr>)"
  using assms by (simp add: c_ReadFrom_def log_call_def)

lemma ReadFrom_not_processed:
  assumes "client_c c = Some (pc, t)"
    and "pc_ReadFrom pc b t = ((n, addr, None), b1, t1)"
    and "0 \<le> n" and "n \<le> int (length b1)"
    and "\<not> IsMessage (take (nat n) b1) \<or>
         fst (Decode \<lparr>TransactionID = replicate 12 0, Raw = take (nat n) b1\<rparr>) \<noteq> None"
  shows "Client_ReadFrom Decode (Suc fuel) b c =
     Returned ((n, addr, None), b1,
       c\<lparr>client_c := Some (pc, t1), client_calls := client_calls c @ [Call_ReadFrom]\<rparr>)"
  using assms by (auto simp: c_ReadFrom_def log_call_def split: prod.splits option.splits)

lemma ReadFrom_processed:
  assumes "client_c c = Some (pc, t)"
    and "client_a c = Some (ag, s)"
    and "pc_ReadFrom pc b t = ((n, addr, None), b1, t1)"
    and "0 \<le> n" and "n \<le> int (length b1)"
    and "IsMessage (take (nat n) b1)"
    and "Decode \<lparr>TransactionID = replicate 12 0, Raw = take (nat n) b1\<rparr> = (None, m)"
  shows "Client_ReadFrom Decode (Suc fuel) b c =
     (case ca_Process ag m s of
        (None, s1) \<Rightarrow>
          Client_ReadFrom Decode fuel b1
            (c\<lparr>client_c := Some (pc, t1), client_a := Some (ag, s1),
               client_calls := client_calls c @ [Call_ReadFrom, Call_Process m]\<rparr>)
      | (Some perr, s1) \<Rightarrow>
          Returned ((n, addr, Some perr), b1,
            c\<lparr>client_c := Some (pc, t1), client_a := Some (ag, s1),
              client_calls := client_calls c @ [Call_ReadFrom, Call_Process m]\<rparr>))"
  using assms
  by (auto simp: c_ReadFrom_def a_Process_def log_call_def split: prod.splits option.splits)

text \<open>\<^verbatim>\<open>ReadFrom\<close> touches the agent, the endpoint and the call log only.\<close>

lemma ReadFrom_frame:
  "Client_ReadFrom Decode j b c = Returned (r, b1, c1) \<Longrightarrow>
     client_wg c1 = client_wg c \<and> client_close c1 = client_close c \<and>
     client_closed c1 = client_closed c \<and> client_goroutines c1 = client_goroutines c \<and>
     client_serveraddr c1 = client_serveraddr c \<and> client_gcRate c1 = client_gcRate c"
proof (induction j arbitrary: b c)
  case 0
  then show ?case by simp
next
  case (Suc j)
  show ?case
  proof (cases "client_c c")
    case None
    then show ?thesis using Suc.prems by (simp add: c_ReadFrom_def)
  next
    case (Some pt)
    obtain pc t where pt: "pt = (pc, t)" by (cases pt)
    obtain n addr err b2 t1 where rd: "pc_ReadFrom pc b t = ((n, addr, err), b2, t1)"
      by (metis prod_cases3)
    let ?c1 = "c\<lparr>client_c := Some (pc, t1), client_calls := client_calls c @ [Call_ReadFrom]\<rparr>"
    have cr: "c_ReadFrom b c = Returned ((n, addr, err), b2, ?c1)"
      using Some pt rd by (simp add: c_ReadFrom_def log_call_def)
    show ?thesis
    proof (cases "err \<noteq> None \<or> \<not> IsMessage (take (nat n) b2) \<or>
        fst (Decode \<lparr>TransactionID = replicate 12 0, Raw = take (nat n) b2\<rparr>) \<noteq> None")
      case True
      then show ?thesis using Suc.prems cr
        by (auto split: if_splits prod.splits option.splits)
    next
      case False
      then obtain m where dec: "Decode \<lparr>TransactionID = replicate 12 0, Raw = take (nat n) b2\<rparr> = (None, m)"
        by (metis fst_conv surj_pair)
      from False have e: "err = None" and im: "IsMessage (take (nat n) b2)" by auto
      show ?thesis
      proof (cases "client_a c")
        case None
        then show ?thesis using Suc.prems cr e im dec
          by (auto simp: a_Process_def split: if_splits)
      next
        case (Some ags)
        obtain ag s where ags: "ags = (ag, s)" by (cases ags)
        obtain perr s1 where pr: "ca_Process ag m s = (perr, s1)" by (cases "ca_Process ag m s")
        let ?c2 = "?c1\<lparr>client_a := Some (ag, s1), client_calls := client_calls ?c1 @ [Call_Process m]\<rparr>"
        have ap: "a_Process m ?c1 = Returned (perr, ?c2)"
          using Some ags pr by (simp add: a_Process_def log_call_def)
        show ?thesis
        proof (cases perr)
          case None
          then have "Client_ReadFrom Decode j b2 ?c2 = Returned (r, b1, c1)"
            using Suc.prems cr e im dec ap by (auto split: if_splits)
          from Suc.IH [OF this] show ?thesis by simp
        next
          case (Some pe)
          then show ?thesis using Suc.prems cr e im dec ap by (auto split: if_splits)
        qed
      qed
    qed
  qed
qed

lemma example_read:
  "pc_ReadFrom testConnection_iface (replicate 32 0) replying =
     ((20, None, None), Raw example_message @ replicate 12 0, replying)"
  by (simp add: testConnection_iface_def replying_def example_message_def)

lemma example_IsMessage: "IsMessage (take (nat 20) (Raw example_message @ replicate 12 0))"
  by (simp add: IsMessage_def example_message_def magicCookie_def)

lemma example_decoded:
  "example_Decode \<lparr>TransactionID = replicate 12 0,
       Raw = take (nat 20) (Raw example_message @ replicate 12 0)\<rparr> = (None, example_message)"
  by (simp add: example_Decode_def example_message_def)

text \<open>
  Claim C6. Let the endpoint return a datagram of \<open>n\<close> bytes without error. The
  datagram is a STUN message when it has at least twenty bytes, the top two bits of its
  first byte are zero and its bytes 4 to 8 are the magic cookie. When it is one and
  \<^verbatim>\<open>Decode\<close> succeeds, \<^verbatim>\<open>ReadFrom\<close> hands the decoded message to \<^verbatim>\<open>Process\<close> on the agent
  (and returns the error of \<^verbatim>\<open>Process\<close>, or reads on when there is none). Otherwise
  \<^verbatim>\<open>ReadFrom\<close> returns \<open>n\<close> and the source address with a nil error, the agent is as it
  was, and the call log has gained the read only.
\<close>

theorem ReadFrom_dispatches_datagram:
  assumes "client_c c = Some (pc, t)"
    and "client_a c = Some (ag, s)"
    and "pc_ReadFrom pc b t = ((n, addr, None), b1, t1)"
    and "0 \<le> n" and "n \<le> int (length b1)"
  shows "IsMessage (take (nat n) b1) =
       (20 \<le> nat n \<and> (b1 ! 0) AND 0xC0 = 0 \<and> take 4 (drop 4 b1) = [0x21, 0x12, 0xA4, 0x42]) \<and>
     (IsMessage (take (nat n) b1) \<and>
      fst (Decode \<lparr>TransactionID = replicate 12 0, Raw = take (nat n) b1\<rparr>) = None \<longrightarrow>
        Client_ReadFrom Decode (Suc fuel) b c =
          (case ca_Process ag (snd (Decode \<lparr>TransactionID = replicate 12 0, Raw = take (nat n) b1\<rparr>)) s of
             (None, s1) \<Rightarrow>
               Client_ReadFrom Decode fuel b1
                 (c\<lparr>client_c := Some (pc, t1), client_a := Some (ag, s1),
                    client_calls := client_calls c @
                      [Call_ReadFrom,
                       Call_Process (snd (Decode \<lparr>TransactionID = replicate 12 0, Raw = take (nat n) b1\<rparr>))]\<rparr>)
           | (Some perr, s1) \<Rightarrow>
               Returned ((n, addr, Some perr), b1,
                 c\<lparr>client_c := Some (pc, t1), client_a := Some (ag, s1),
                   client_calls := client_calls c @
                     [Call_ReadFrom,
                      Call_Process (snd (Decode \<lparr>TransactionID = replicate 12 0, Raw = take (nat n) b1\<rparr>))]\<rparr>))) \<and>
     (\<not> (IsMessage (take (nat n) b1) \<and>
         fst (Decode \<lparr>TransactionID = replicate 12 0, Raw = take (nat n) b1\<rparr>) = None) \<longrightarrow>
        Client_ReadFrom Decode (Suc fuel) b c =
          Returned ((n, addr, None), b1,
            c\<lparr>client_c := Some (pc, t1), client_calls := client_calls c @ [Call_ReadFrom]\<rparr>))"
proof -
  have im: "IsMessage (take (nat n) b1) =
       (20 \<le> nat n \<and> (b1 ! 0) AND 0xC0 = 0 \<and> take 4 (drop 4 b1) = [0x21, 0x12, 0xA4, 0x42])"
  proof (cases "20 \<le> nat n")
    case True
    then have "take 4 (drop 4 (take (nat n) b1)) = take 4 (drop 4 b1)"
      by (simp add: drop_take)
    moreover have "take (nat n) b1 ! 0 = b1 ! 0"
      using True by simp
    moreover have "length (take (nat n) b1) = nat n"
      using assms(4,5) by simp
    ultimately show ?thesis
      by (simp add: IsMessage_def magicCookie_def)
  next
    case False
    then show ?thesis by (simp add: IsMessage_def)
  qed
  have yes: "IsMessage (take (nat n) b1) \<and>
      fst (Decode \<lparr>TransactionID = replicate 12 0, Raw = take (nat n) b1\<rparr>) = None \<longrightarrow>
        Client_ReadFrom Decode (Suc fuel) b c =
          (case ca_Process ag (snd (Decode \<lparr>TransactionID = replicate 12 0, Raw = take (nat n) b1\<rparr>)) s of
             (None, s1) \<Rightarrow>
               Client_ReadFrom Decode fuel b1
                 (c\<lparr>client_c := Some (pc, t1), client_a := Some (ag, s1),
                    client_calls := client_calls c @
                      [Call_ReadFrom,
                       Call_Process (snd (Decode \<lparr>TransactionID = replicate 12 0, Raw = take (nat n) b1\<rparr>))]\<rparr>)
           | (Some perr, s1) \<Rightarrow>
               Returned ((n, addr, Some perr), b1,
                 c\<lparr>client_c := Some (pc, t1), client_a := Some (ag, s1),
                   client_calls := client_calls c @
                     [Call_ReadFrom,
                      Call_Process (snd (Decode \<lparr>TransactionID = replicate 12 0, Raw = take (nat n) b1\<rparr>))]\<rparr>))"
    using ReadFrom_processed [OF assms, of Decode
        "snd (Decode \<lparr>TransactionID = replicate 12 0, Raw = take (nat n) b1\<rparr>)" fuel]
    by (simp add: prod_eq_iff)
  have no: "\<not> (IsMessage (take (nat n) b1) \<and>
         fst (Decode \<lparr>TransactionID = replicate 12 0, Raw = take (nat n) b1\<rparr>) = None) \<longrightarrow>
        Client_ReadFrom Decode (Suc fuel) b c =
          Returned ((n, addr, None), b1,
            c\<lparr>client_c := Some (pc, t1), client_calls := client_calls c @ [Call_ReadFrom]\<rparr>)"
    using ReadFrom_not_processed [OF assms(1) assms(3) assms(4) assms(5), of Decode fuel]
    by blast
  show ?thesis using im yes no by blast
qed

theorem ReadFrom_dispatches_datagram_witness:
  "client_c (agent_client closed_Agent replying) = Some (testConnection_iface, replying) \<and>
   client_a (agent_client closed_Agent replying) = Some (Agent_iface, closed_Agent) \<and>
   pc_ReadFrom testConnection_iface (replicate 32 0) replying =
     ((20, None, None), Raw example_message @ replicate 12 0, replying) \<and>
   Client_ReadFrom example_Decode (Suc 0) (replicate 32 0) (agent_client closed_Agent replying) =
     Returned ((20, None, Some ErrAgentClosed), Raw example_message @ replicate 12 0,
       (agent_client closed_Agent replying)
         \<lparr>client_calls := [Call_ReadFrom, Call_Process example_message]\<rparr>)"
proof -
  let ?c = "agent_client closed_Agent replying"
  have 1: "client_c ?c = Some (testConnection_iface, replying)"
    by (simp add: agent_client_def)
  have 2: "client_a ?c = Some (Agent_iface, closed_Agent)"
    by (simp add: agent_client_def)
  have 3: "(0::int) \<le> 20" and 4: "20 \<le> int (length (Raw example_message @ replicate 12 0))"
    by (simp_all add: example_message_def)
  have 5: "ca_Process Agent_iface example_message closed_Agent = (Some ErrAgentClosed, closed_Agent)"
    by (simp add: Agent_iface_def Agent_Process_def closed_Agent_def)
  have "Client_ReadFrom example_Decode (Suc 0) (replicate 32 0) ?c =
      Returned ((20, None, Some ErrAgentClosed), Raw example_message @ replicate 12 0,
        ?c\<lparr>client_c := Some (testConnection_iface, replying),
           client_a := Some (Agent_iface, closed_Agent),
           client_calls := client_calls ?c @ [Call_ReadFrom, Call_Process example_message]\<rparr>)"
    using ReadFrom_dispatches_datagram [OF 1 2 example_read 3 4, of example_Decode 0]
      example_IsMessage example_decoded 5
    by simp
  then show ?thesis
    using 1 2 example_read by (simp add: agent_client_def)
qed

subsection \<open>The read loop\<close>

lemma read_loop_step:
  assumes "client_close c \<noteq> Some True"
    and "Client_ReadFrom Decode j buf c = Returned ((n, addr, err), buf1, c1)"
  shows "read_loop Decode (Suc k) j buf c =
     (if err = Some ErrAgentClosed then Returned c1 else read_loop Decode k j buf1 c1)"
  using assms by simp

text \<open>A return of the loop has one of two causes.\<close>

lemma read_loop_returns_only:
  "read_loop Decode k j buf c = Returned c' \<Longrightarrow>
     client_close c' = Some True \<or>
     (\<exists>buf' c'' n addr b1.
        Client_ReadFrom Decode j buf' c'' = Returned ((n, addr, Some ErrAgentClosed), b1, c'))"
proof (induction k arbitrary: buf c)
  case 0
  then show ?case by simp
next
  case (Suc k)
  show ?case
  proof (cases "client_close c = Some True")
    case True
    then show ?thesis using Suc.prems by simp
  next
    case False
    show ?thesis
    proof (cases "Client_ReadFrom Decode j buf c")
      case (Returned r)
      obtain n addr err b1 c1 where r: "r = ((n, addr, err), b1, c1)"
        by (metis prod_cases3)
      show ?thesis
      proof (cases "err = Some ErrAgentClosed")
        case True
        then have "c' = c1"
          using Suc.prems False Returned r by simp
        then show ?thesis using Returned r True by blast
      next
        case ne: False
        then have "read_loop Decode k j b1 c1 = Returned c'"
          using Suc.prems False Returned r by simp
        then show ?thesis by (rule Suc.IH)
      qed
    next
      case (Panicked p)
      then show ?thesis using Suc.prems False by simp
    next
      case Running
      then show ?thesis using Suc.prems False by simp
    qed
  qed
qed

text \<open>
  The endpoint was closed and every read fails with \<^verbatim>\<open>io.EOF\<close>, as \<^verbatim>\<open>testConnection\<close>
  does once stopped; the close channel is open. The loop does not return: after the
  failed read it runs its next iteration.
\<close>

theorem read_loop_survives_closed_endpoint:
  "pc_ReadFrom testConnection_iface (replicate 1024 0) stopped_conn =
     ((0, None, Some io_EOF), replicate 1024 0, stopped_conn) \<and>
   readUntilClosed example_Decode (Suc 0) (Suc 0)
     (ReadUntilClosed (agent_client (NewAgent None) stopped_conn)) = Running \<and>
   readUntilClosed example_Decode (Suc (Suc (Suc 0))) (Suc 0)
     (ReadUntilClosed (agent_client (NewAgent None) stopped_conn)) = Running \<and>
   read_loop example_Decode (Suc (Suc (Suc 0))) (Suc 0) (replicate 1024 0)
     (ReadUntilClosed (agent_client (NewAgent None) stopped_conn)) =
   read_loop example_Decode (Suc (Suc 0)) (Suc 0) (replicate 1024 0)
     ((ReadUntilClosed (agent_client (NewAgent None) stopped_conn))
        \<lparr>client_calls := [Call_ReadFrom]\<rparr>)"
  by (simp add: readUntilClosed_def ReadUntilClosed_def agent_client_def stopped_conn_def
      testConnection_iface_def c_ReadFrom_def log_call_def)

text \<open>
  Claim C4, amended. The loop of \<^verbatim>\<open>readUntilClosed\<close> returns when the close channel is
  closed at the head of an iteration, or when \<^verbatim>\<open>ReadFrom\<close> returns \<^verbatim>\<open>ErrAgentClosed\<close>.
  Each iteration calls \<^verbatim>\<open>ReadFrom\<close>. A read of the endpoint that fails with any other
  error, the error of a closed endpoint included, does not end the loop: the next
  iteration runs. A datagram that is no STUN message or that fails to decode is dropped
  and the next iteration runs; a STUN message that decodes is handed to \<^verbatim>\<open>Process\<close> on
  the agent, and when that succeeds \<^verbatim>\<open>ReadFrom\<close> reads the next datagram in the same
  iteration. The loop returns for no other reason.
\<close>

theorem read_loop_exits_on_signal_or_agent_closed:
  "(client_close c = Some True \<longrightarrow> read_loop Decode (Suc k) j buf c = Returned c) \<and>
   (client_close c \<noteq> Some True \<and>
    Client_ReadFrom Decode j buf c = Returned ((n, addr, err), buf1, c1) \<longrightarrow>
      read_loop Decode (Suc k) j buf c =
        (if err = Some ErrAgentClosed then Returned c1 else read_loop Decode k j buf1 c1)) \<and>
   (client_close c \<noteq> Some True \<and> client_c c = Some (pc, t) \<and>
    pc_ReadFrom pc buf t = ((n, addr, Some e), buf1, t1) \<longrightarrow>
      read_loop Decode (Suc k) (Suc j) buf c =
        (if e = ErrAgentClosed
         then Returned (c\<lparr>client_c := Some (pc, t1), client_calls := client_calls c @ [Call_ReadFrom]\<rparr>)
         else read_loop Decode k (Suc j) buf1
           (c\<lparr>client_c := Some (pc, t1), client_calls := client_calls c @ [Call_ReadFrom]\<rparr>))) \<and>
   (client_close c \<noteq> Some True \<and> client_c c = Some (pc, t) \<and>
    pc_ReadFrom pc buf t = ((n, addr, None), buf1, t1) \<and> 0 \<le> n \<and> n \<le> int (length buf1) \<and>
    (\<not> IsMessage (take (nat n) buf1) \<or>
     fst (Decode \<lparr>TransactionID = replicate 12 0, Raw = take (nat n) buf1\<rparr>) \<noteq> None) \<longrightarrow>
      read_loop Decode (Suc k) (Suc j) buf c =
        read_loop Decode k (Suc j) buf1
          (c\<lparr>client_c := Some (pc, t1), client_calls := client_calls c @ [Call_ReadFrom]\<rparr>)) \<and>
   (client_c c = Some (pc, t) \<and> client_a c = Some (ag, s) \<and>
    pc_ReadFrom pc buf t = ((n, addr, None), buf1, t1) \<and> 0 \<le> n \<and> n \<le> int (length buf1) \<and>
    IsMessage (take (nat n) buf1) \<and>
    Decode \<lparr>TransactionID = replicate 12 0, Raw = take (nat n) buf1\<rparr> = (None, m) \<longrightarrow>
      Client_ReadFrom Decode (Suc j) buf c =
        (case ca_Process ag m s of
           (None, s1) \<Rightarrow>
             Client_ReadFrom Decode j buf1
               (c\<lparr>client_c := Some (pc, t1), client_a := Some (ag, s1),
                  client_calls := client_calls c @ [Call_ReadFrom, Call_Process m]\<rparr>)
         | (Some perr, s1) \<Rightarrow>
             Returned ((n, addr, Some perr), buf1,
               c\<lparr>client_c := Some (pc, t1), client_a := Some (ag, s1),
                 client_calls := client_calls c @ [Call_ReadFrom, Call_Process m]\<rparr>))) \<and>
   (\<forall>c'. read_loop Decode k j buf c = Returned c' \<longrightarrow>
      client_close c' = Some True \<or>
      (\<exists>buf' c'' n addr b1.
         Client_ReadFrom Decode j buf' c'' = Returned ((n, addr, Some ErrAgentClosed), b1, c')))"
proof -
  have a: "client_close c = Some True \<longrightarrow> read_loop Decode (Suc k) j buf c = Returned c"
    by simp
  have b: "client_close c \<noteq> Some True \<and>
    Client_ReadFrom Decode j buf c = Returned ((n, addr, err), buf1, c1) \<longrightarrow>
      read_loop Decode (Suc k) j buf c =
        (if err = Some ErrAgentClosed then Returned c1 else read_loop Decode k j buf1 c1)"
    using read_loop_step by blast
  have c: "client_close c \<noteq> Some True \<and> client_c c = Some (pc, t) \<and>
    pc_ReadFrom pc buf t = ((n, addr, Some e), buf1, t1) \<longrightarrow>
      read_loop Decode (Suc k) (Suc j) buf c =
        (if e = ErrAgentClosed
         then Returned (c\<lparr>client_c := Some (pc, t1), client_calls := client_calls c @ [Call_ReadFrom]\<rparr>)
         else read_loop Decode k (Suc j) buf1
           (c\<lparr>client_c := Some (pc, t1), client_calls := client_calls c @ [Call_ReadFrom]\<rparr>))"
  proof (intro impI, elim conjE)
    assume op: "client_close c \<noteq> Some True" and cc: "client_c c = Some (pc, t)"
      and rd: "pc_ReadFrom pc buf t = ((n, addr, Some e), buf1, t1)"
    show "read_loop Decode (Suc k) (Suc j) buf c =
        (if e = ErrAgentClosed
         then Returned (c\<lparr>client_c := Some (pc, t1), client_calls := client_calls c @ [Call_ReadFrom]\<rparr>)
         else read_loop Decode k (Suc j) buf1
           (c\<lparr>client_c := Some (pc, t1), client_calls := client_calls c @ [Call_ReadFrom]\<rparr>))"
      using read_loop_step [OF op ReadFrom_read_error [OF cc rd, where Decode = Decode and fuel = j], where k = k]
      by (simp del: read_loop.simps Client_ReadFrom.simps)
  qed
  have d: "client_close c \<noteq> Some True \<and> client_c c = Some (pc, t) \<and>
    pc_ReadFrom pc buf t = ((n, addr, None), buf1, t1) \<and> 0 \<le> n \<and> n \<le> int (length buf1) \<and>
    (\<not> IsMessage (take (nat n) buf1) \<or>
     fst (Decode \<lparr>TransactionID = replicate 12 0, Raw = take (nat n) buf1\<rparr>) \<noteq> None) \<longrightarrow>
      read_loop Decode (Suc k) (Suc j) buf c =
        read_loop Decode k (Suc j) buf1
          (c\<lparr>client_c := Some (pc, t1), client_calls := client_calls c @ [Call_ReadFrom]\<rparr>)"
  proof (intro impI, elim conjE)
    assume op: "client_close c \<noteq> Some True" and cc: "client_c c = Some (pc, t)"
      and rd: "pc_ReadFrom pc buf t = ((n, addr, None), buf1, t1)"
      and n0: "0 \<le> n" and n1: "n \<le> int (length buf1)"
      and no: "\<not> IsMessage (take (nat n) buf1) \<or>
        fst (Decode \<lparr>TransactionID = replicate 12 0, Raw = take (nat n) buf1\<rparr>) \<noteq> None"
    show "read_loop Decode (Suc k) (Suc j) buf c =
        read_loop Decode k (Suc j) buf1
          (c\<lparr>client_c := Some (pc, t1), client_calls := client_calls c @ [Call_ReadFrom]\<rparr>)"
      using read_loop_step [OF op ReadFrom_not_processed [where Decode = Decode and fuel = j, OF cc rd n0 n1 no], where k = k]
      by (simp del: read_loop.simps Client_ReadFrom.simps)
  qed
  have e: "client_c c = Some (pc, t) \<and> client_a c = Some (ag, s) \<and>
    pc_ReadFrom pc buf t = ((n, addr, None), buf1, t1) \<and> 0 \<le> n \<and> n \<le> int (length buf1) \<and>
    IsMessage (take (nat n) buf1) \<and>
    Decode \<lparr>TransactionID = replicate 12 0, Raw = take (nat n) buf1\<rparr> = (None, m) \<longrightarrow>
      Client_ReadFrom Decode (Suc j) buf c =
        (case ca_Process ag m s of
           (None, s1) \<Rightarrow>
             Client_ReadFrom Decode j buf1
               (c\<lparr>client_c := Some (pc, t1), client_a := Some (ag, s1),
                  client_calls := client_calls c @ [Call_ReadFrom, Call_Process m]\<rparr>)
         | (Some perr, s1) \<Rightarrow>
             Returned ((n, addr, Some perr), buf1,
               c\<lparr>client_c := Some (pc, t1), client_a := Some (ag, s1),
                 client_calls := client_calls c @ [Call_ReadFrom, Call_Process m]\<rparr>))"
    using ReadFrom_processed [of c pc t ag s buf n addr buf1 t1 Decode m j] by blast
  have f: "\<forall>c'. read_loop Decode k j buf c = Returned c' \<longrightarrow>
      client_close c' = Some True \<or>
      (\<exists>buf' c'' n addr b1.
         Client_ReadFrom Decode j buf' c'' = Returned ((n, addr, Some ErrAgentClosed), b1, c'))"
    using read_loop_returns_only by blast
  show ?thesis
    using a b c d e f by blast
qed

theorem read_loop_exits_on_signal_or_agent_closed_witness:
  "client_close (agent_client (NewAgent None) stopped_conn) \<noteq> Some True \<and>
   client_c (agent_client (NewAgent None) stopped_conn) = Some (testConnection_iface, stopped_conn) \<and>
   pc_ReadFrom testConnection_iface (replicate 32 0) stopped_conn =
     ((0, None, Some io_EOF), replicate 32 0, stopped_conn) \<and>
   read_loop example_Decode (Suc (Suc 0)) (Suc 0) (replicate 32 0)
       (agent_client (NewAgent None) stopped_conn) =
     read_loop example_Decode (Suc 0) (Suc 0) (replicate 32 0)
       ((agent_client (NewAgent None) stopped_conn)\<lparr>client_calls := [Call_ReadFrom]\<rparr>) \<and>
   read_loop example_Decode (Suc 0) 0 (replicate 32 0)
       ((agent_client (NewAgent None) stopped_conn)\<lparr>client_close := Some True\<rparr>) =
     Returned ((agent_client (NewAgent None) stopped_conn)\<lparr>client_close := Some True\<rparr>)"
proof -
  let ?c = "agent_client (NewAgent None) stopped_conn"
  let ?d = "?c\<lparr>client_close := Some True\<rparr>"
  have 1: "client_close ?c \<noteq> Some True"
    by (simp add: agent_client_def)
  have 2: "client_c ?c = Some (testConnection_iface, stopped_conn)"
    by (simp add: agent_client_def)
  have 3: "pc_ReadFrom testConnection_iface (replicate 32 0) stopped_conn =
     ((0, None, Some io_EOF), replicate 32 0, stopped_conn)"
    by (simp add: testConnection_iface_def stopped_conn_def)
  have 4: "client_close ?d = Some True"
    by simp
  have "read_loop example_Decode (Suc (Suc 0)) (Suc 0) (replicate 32 0) ?c =
      read_loop example_Decode (Suc 0) (Suc 0) (replicate 32 0)
        (?c\<lparr>client_c := Some (testConnection_iface, stopped_conn),
            client_calls := client_calls ?c @ [Call_ReadFrom]\<rparr>)"
    using 1 2 3
      read_loop_exits_on_signal_or_agent_closed
        [where c = ?c and pc = testConnection_iface and t = stopped_conn and buf = "replicate 32 0"
           and n = 0 and addr = None and e = io_EOF and ?buf1.0 = "replicate 32 0" and ?t1.0 = stopped_conn
           and Decode = example_Decode and k = "Suc 0" and j = 0]
    by (simp del: read_loop.simps Client_ReadFrom.simps)
  moreover have "read_loop example_Decode (Suc 0) 0 (replicate 32 0) ?d = Returned ?d"
    using 4 read_loop_exits_on_signal_or_agent_closed
        [where c = ?d and Decode = example_Decode and k = 0 and j = 0 and buf = "replicate 32 0"]
    by blast
  ultimately show ?thesis
    using 1 2 3 by (simp add: agent_client_def del: read_loop.simps Client_ReadFrom.simps)
qed

text \<open>
  Claim C5. \<^verbatim>\<open>Process\<close> on a closed agent returns \<^verbatim>\<open>ErrAgentClosed\<close> (and on an open agent
  it returns nil); \<^verbatim>\<open>ReadFrom\<close> passes that error on to its caller; and an iteration of
  the read loop that called \<^verbatim>\<open>ReadFrom\<close> returns exactly when the error it got is
  \<^verbatim>\<open>ErrAgentClosed\<close>, otherwise the loop goes on. \<^verbatim>\<open>readUntilClosed\<close>, spawned by
  \<^verbatim>\<open>ReadUntilClosed\<close>, then returns after \<^verbatim>\<open>wg.Done()\<close> and does not panic.
\<close>

theorem agent_closed_ends_read_loop:
  "(agent_closed ag \<longrightarrow> Agent_Process m ag = (Some ErrAgentClosed, ag)) \<and>
   (\<not> agent_closed ag \<longrightarrow> fst (Agent_Process m ag) = None) \<and>
   (client_c c = Some (pc, t) \<and> client_a c = Some (Agent_iface, ag) \<and> agent_closed ag \<and>
    pc_ReadFrom pc buf t = ((n, addr, None), buf1, t1) \<and> 0 \<le> n \<and> n \<le> int (length buf1) \<and>
    IsMessage (take (nat n) buf1) \<and>
    Decode \<lparr>TransactionID = replicate 12 0, Raw = take (nat n) buf1\<rparr> = (None, m) \<longrightarrow>
      Client_ReadFrom Decode (Suc j) buf c =
        Returned ((n, addr, Some ErrAgentClosed), buf1,
          c\<lparr>client_c := Some (pc, t1),
            client_calls := client_calls c @ [Call_ReadFrom, Call_Process m]\<rparr>)) \<and>
   (client_close c \<noteq> Some True \<and>
    Client_ReadFrom Decode j buf c = Returned ((n, addr, err), buf1, c1) \<longrightarrow>
      (read_loop Decode (Suc 0) j buf c = Returned c1 \<longleftrightarrow> err = Some ErrAgentClosed) \<and>
      (err = Some ErrAgentClosed \<longrightarrow> read_loop Decode (Suc k) j buf c = Returned c1) \<and>
      (err \<noteq> Some ErrAgentClosed \<longrightarrow>
         read_loop Decode (Suc k) j buf c = read_loop Decode k j buf1 c1)) \<and>
   (client_close c \<noteq> Some True \<and> 0 < client_wg c \<and>
    Client_ReadFrom Decode j (replicate 1024 0) c =
      Returned ((n, addr, Some ErrAgentClosed), buf1, c1) \<longrightarrow>
      readUntilClosed Decode (Suc k) j c = Returned (c1\<lparr>client_wg := client_wg c - 1\<rparr>))"
proof -
  have a: "agent_closed ag \<longrightarrow> Agent_Process m ag = (Some ErrAgentClosed, ag)"
    by (simp add: Agent_Process_def)
  have b: "\<not> agent_closed ag \<longrightarrow> fst (Agent_Process m ag) = None"
    by (simp add: Agent_Process_def Let_def split: option.splits prod.splits)
  have c: "client_c c = Some (pc, t) \<and> client_a c = Some (Agent_iface, ag) \<and> agent_closed ag \<and>
    pc_ReadFrom pc buf t = ((n, addr, None), buf1, t1) \<and> 0 \<le> n \<and> n \<le> int (length buf1) \<and>
    IsMessage (take (nat n) buf1) \<and>
    Decode \<lparr>TransactionID = replicate 12 0, Raw = take (nat n) buf1\<rparr> = (None, m) \<longrightarrow>
      Client_ReadFrom Decode (Suc j) buf c =
        Returned ((n, addr, Some ErrAgentClosed), buf1,
          c\<lparr>client_c := Some (pc, t1),
            client_calls := client_calls c @ [Call_ReadFrom, Call_Process m]\<rparr>)"
  proof (intro impI, elim conjE)
    assume cc: "client_c c = Some (pc, t)" and ca: "client_a c = Some (Agent_iface, ag)"
      and cl: "agent_closed ag"
      and rd: "pc_ReadFrom pc buf t = ((n, addr, None), buf1, t1)"
      and n0: "0 \<le> n" and n1: "n \<le> int (length buf1)"
      and im: "IsMessage (take (nat n) buf1)"
      and dec: "Decode \<lparr>TransactionID = replicate 12 0, Raw = take (nat n) buf1\<rparr> = (None, m)"
    have pr: "ca_Process Agent_iface m ag = (Some ErrAgentClosed, ag)"
      using cl by (simp add: Agent_iface_def Agent_Process_def)
    have same: "c\<lparr>client_c := Some (pc, t1), client_a := Some (Agent_iface, ag),
          client_calls := client_calls c @ [Call_ReadFrom, Call_Process m]\<rparr> =
        c\<lparr>client_c := Some (pc, t1),
          client_calls := client_calls c @ [Call_ReadFrom, Call_Process m]\<rparr>"
      using ca by simp
    show "Client_ReadFrom Decode (Suc j) buf c =
        Returned ((n, addr, Some ErrAgentClosed), buf1,
          c\<lparr>client_c := Some (pc, t1),
            client_calls := client_calls c @ [Call_ReadFrom, Call_Process m]\<rparr>)"
      using ReadFrom_processed [where Decode = Decode and fuel = j, OF cc ca rd n0 n1 im dec] pr same
      by (simp del: Client_ReadFrom.simps)
  qed
  have d: "client_close c \<noteq> Some True \<and>
    Client_ReadFrom Decode j buf c = Returned ((n, addr, err), buf1, c1) \<longrightarrow>
      (read_loop Decode (Suc 0) j buf c = Returned c1 \<longleftrightarrow> err = Some ErrAgentClosed) \<and>
      (err = Some ErrAgentClosed \<longrightarrow> read_loop Decode (Suc k) j buf c = Returned c1) \<and>
      (err \<noteq> Some ErrAgentClosed \<longrightarrow>
         read_loop Decode (Suc k) j buf c = read_loop Decode k j buf1 c1)"
    by simp
  have e: "client_close c \<noteq> Some True \<and> 0 < client_wg c \<and>
    Client_ReadFrom Decode j (replicate 1024 0) c =
      Returned ((n, addr, Some ErrAgentClosed), buf1, c1) \<longrightarrow>
      readUntilClosed Decode (Suc k) j c = Returned (c1\<lparr>client_wg := client_wg c - 1\<rparr>)"
  proof (intro impI, elim conjE)
    assume op: "client_close c \<noteq> Some True" and wg: "0 < client_wg c"
      and rf: "Client_ReadFrom Decode j (replicate 1024 0) c =
        Returned ((n, addr, Some ErrAgentClosed), buf1, c1)"
    have "client_wg c1 = client_wg c"
      using ReadFrom_frame [OF rf] by simp
    then show "readUntilClosed Decode (Suc k) j c = Returned (c1\<lparr>client_wg := client_wg c - 1\<rparr>)"
      using read_loop_step [OF op rf, where k = k] wg
      by (simp add: readUntilClosed_def wg_Done_def del: read_loop.simps Client_ReadFrom.simps)
  qed
  show ?thesis
    using a b c d e by blast
qed

theorem agent_closed_ends_read_loop_witness:
  "agent_closed closed_Agent \<and>
   Agent_Process example_message closed_Agent = (Some ErrAgentClosed, closed_Agent) \<and>
   client_close (ReadUntilClosed (agent_client closed_Agent replying)) \<noteq> Some True \<and>
   0 < client_wg (ReadUntilClosed (agent_client closed_Agent replying)) \<and>
   Client_ReadFrom example_Decode (Suc 0) (replicate 1024 0)
       (ReadUntilClosed (agent_client closed_Agent replying)) =
     Returned ((20, None, Some ErrAgentClosed), Raw example_message @ replicate 1004 0,
       (ReadUntilClosed (agent_client closed_Agent replying))
         \<lparr>client_calls := [Call_ReadFrom, Call_Process example_message]\<rparr>) \<and>
   readUntilClosed example_Decode (Suc 0) (Suc 0)
       (ReadUntilClosed (agent_client closed_Agent replying)) =
     Returned ((agent_client closed_Agent replying)
         \<lparr>client_goroutines := [Go_readUntilClosed],
           client_calls := [Call_ReadFrom, Call_Process example_message]\<rparr>)"
proof -
  let ?c = "ReadUntilClosed (agent_client closed_Agent replying)"
  let ?b = "Raw example_message @ replicate 1004 0"
  note T = agent_closed_ends_read_loop
    [where ag = closed_Agent and m = example_message and c = ?c and pc = testConnection_iface
       and t = replying and buf = "replicate 1024 0" and n = 20 and addr = None and ?buf1.0 = ?b
       and ?t1.0 = replying and Decode = example_Decode and j = 0]
  have cl: "agent_closed closed_Agent"
    by (simp add: closed_Agent_def)
  have pr: "Agent_Process example_message closed_Agent = (Some ErrAgentClosed, closed_Agent)"
    using T cl by blast
  have 1: "client_c ?c = Some (testConnection_iface, replying)"
    and 2: "client_a ?c = Some (Agent_iface, closed_Agent)"
    and 3: "client_close ?c \<noteq> Some True"
    and 4: "0 < client_wg ?c"
    by (simp_all add: ReadUntilClosed_def agent_client_def)
  have 5: "pc_ReadFrom testConnection_iface (replicate 1024 0) replying = ((20, None, None), ?b, replying)"
    by (simp add: testConnection_iface_def replying_def example_message_def)
  have 6: "(0::int) \<le> 20" and 7: "20 \<le> int (length ?b)"
    by (simp_all add: example_message_def)
  have 8: "IsMessage (take (nat 20) ?b)"
    by (simp add: IsMessage_def example_message_def magicCookie_def)
  have 9: "example_Decode \<lparr>TransactionID = replicate 12 0, Raw = take (nat 20) ?b\<rparr> =
      (None, example_message)"
    by (simp add: example_Decode_def example_message_def)
  have rf: "Client_ReadFrom example_Decode (Suc 0) (replicate 1024 0) ?c =
      Returned ((20, None, Some ErrAgentClosed), ?b,
        ?c\<lparr>client_c := Some (testConnection_iface, replying),
           client_calls := client_calls ?c @ [Call_ReadFrom, Call_Process example_message]\<rparr>)"
    using T cl 1 2 5 6 7 8 9 by blast
  have ru: "readUntilClosed example_Decode (Suc 0) (Suc 0) ?c =
      Returned (?c\<lparr>client_c := Some (testConnection_iface, replying),
           client_calls := client_calls ?c @ [Call_ReadFrom, Call_Process example_message],
           client_wg := client_wg ?c - 1\<rparr>)"
    using agent_closed_ends_read_loop
      [where c = ?c and Decode = example_Decode and j = "Suc 0" and k = 0 and n = 20 and addr = None
         and ?buf1.0 = ?b
         and ?c1.0 = "?c\<lparr>client_c := Some (testConnection_iface, replying),
           client_calls := client_calls ?c @ [Call_ReadFrom, Call_Process example_message]\<rparr>"]
      3 4 rf
    by blast
  show ?thesis
    using cl pr 3 4 rf ru
    by (simp add: ReadUntilClosed_def agent_client_def del: Client_ReadFrom.simps)
qed

subsection \<open>Collecting timed-out transactions\<close>

lemma collect_walk_eq:
  "collect_walk now ts =
     (filter (\<lambda>(tid, d, h). now < d) ts,
      map (\<lambda>(tid, d, h). (h, timeout_event tid)) (filter (\<lambda>(tid, d, h). d \<le> now) ts))"
  by (induction ts) (auto split: prod.splits)

lemma filter_key_distinct:
  "distinct (map fst ts) \<Longrightarrow> x \<in> set ts \<Longrightarrow> filter (\<lambda>y. fst y = fst x) ts = [x]"
proof (induction ts)
  case Nil
  then show ?case by simp
next
  case (Cons a ts)
  show ?case
  proof (cases "x = a")
    case True
    have "fst a \<notin> fst ` set ts"
      using Cons.prems(1) by simp
    then have "\<forall>y\<in>set ts. fst y \<noteq> fst a"
      by (metis imageI)
    then have "filter (\<lambda>y. fst y = fst a) ts = []"
      by (simp add: filter_empty_conv)
    then show ?thesis using True by simp
  next
    case False
    then have "x \<in> set ts" using Cons.prems(2) by simp
    moreover have "fst a \<noteq> fst x"
      using Cons.prems(1) \<open>x \<in> set ts\<close> by force
    ultimately show ?thesis using Cons by simp
  qed
qed

lemma events_of_key:
  "filter (\<lambda>(h', e). ev_TransactionID e = tid)
       (map (\<lambda>(tid, d, h). (h, timeout_event tid)) (filter (\<lambda>(tid, d, h). d \<le> now) ts)) =
     map (\<lambda>(tid, d, h). (h, timeout_event tid))
       (filter (\<lambda>(tid', d, h). d \<le> now) (filter (\<lambda>y. fst y = tid) ts))"
  by (induction ts) (auto simp: timeout_event_def)

text \<open>
  Claim C3. In every state of the agent and at every time \<open>now\<close>, \<^verbatim>\<open>Collect(now)\<close>
  keeps exactly the registrations whose deadline is after \<open>now\<close>, in their order, and
  fires one \<^verbatim>\<open>ErrTransactionTimeOut\<close> event for each registration whose deadline is at
  most \<open>now\<close>, on that registration's handler. When the identifiers of the registry are
  distinct, a due registration is gone and exactly one event carries its identifier; a
  registration that is not due is still there and no event carries its identifier.
\<close>

theorem Collect_times_out_due_registrations:
  "fst (Agent_Collect now ag) = None \<and>
   agent_transactions (snd (Agent_Collect now ag)) =
     filter (\<lambda>(tid, d, h). now < d) (agent_transactions ag) \<and>
   agent_fired (snd (Agent_Collect now ag)) =
     agent_fired ag @
     map (\<lambda>(tid, d, h).
            (h, \<lparr>ev_TransactionID = tid, ev_Message = None, ev_Error = Some ErrTransactionTimeOut\<rparr>))
       (filter (\<lambda>(tid, d, h). d \<le> now) (agent_transactions ag)) \<and>
   (distinct (map fst (agent_transactions ag)) \<longrightarrow>
      (\<forall>(tid, d, h) \<in> set (agent_transactions ag).
         (d \<le> now \<longrightarrow>
            map_of (agent_transactions (snd (Agent_Collect now ag))) tid = None \<and>
            filter (\<lambda>(h', e). ev_TransactionID e = tid)
                (drop (length (agent_fired ag)) (agent_fired (snd (Agent_Collect now ag)))) =
              [(h, \<lparr>ev_TransactionID = tid, ev_Message = None,
                    ev_Error = Some ErrTransactionTimeOut\<rparr>)]) \<and>
         (now < d \<longrightarrow>
            map_of (agent_transactions (snd (Agent_Collect now ag))) tid = Some (d, h) \<and>
            filter (\<lambda>(h', e). ev_TransactionID e = tid)
                (drop (length (agent_fired ag)) (agent_fired (snd (Agent_Collect now ag)))) = [])))"
proof -
  let ?ts = "agent_transactions ag"
  let ?ag' = "snd (Agent_Collect now ag)"
  have 1: "fst (Agent_Collect now ag) = None"
    by (simp add: Agent_Collect_def collect_walk_eq)
  have 2: "agent_transactions ?ag' = filter (\<lambda>(tid, d, h). now < d) ?ts"
    by (simp add: Agent_Collect_def collect_walk_eq)
  have 3: "agent_fired ?ag' = agent_fired ag @
      map (\<lambda>(tid, d, h). (h, timeout_event tid)) (filter (\<lambda>(tid, d, h). d \<le> now) ?ts)"
    by (simp add: Agent_Collect_def collect_walk_eq)
  have new: "drop (length (agent_fired ag)) (agent_fired ?ag') =
      map (\<lambda>(tid, d, h). (h, timeout_event tid)) (filter (\<lambda>(tid, d, h). d \<le> now) ?ts)"
    using 3 by simp
  have 4: "\<forall>(tid, d, h) \<in> set ?ts.
         (d \<le> now \<longrightarrow>
            map_of (agent_transactions ?ag') tid = None \<and>
            filter (\<lambda>(h', e). ev_TransactionID e = tid)
                (drop (length (agent_fired ag)) (agent_fired ?ag')) = [(h, timeout_event tid)]) \<and>
         (now < d \<longrightarrow>
            map_of (agent_transactions ?ag') tid = Some (d, h) \<and>
            filter (\<lambda>(h', e). ev_TransactionID e = tid)
                (drop (length (agent_fired ag)) (agent_fired ?ag')) = [])"
    if dist: "distinct (map fst ?ts)"
  proof (intro ballI, clarify)
    fix tid d h
    assume mem: "(tid, d, h) \<in> set ?ts"
    have one: "filter (\<lambda>y. fst y = tid) ?ts = [(tid, d, h)]"
      using filter_key_distinct [OF dist mem] by simp
    have mo: "map_of ?ts tid = Some (d, h)"
      using dist mem by simp
    have dist': "distinct (map fst (filter (\<lambda>(tid, d, h). now < d) ?ts))"
      using dist by (simp add: distinct_map_filter)
    show "(d \<le> now \<longrightarrow>
            map_of (agent_transactions ?ag') tid = None \<and>
            filter (\<lambda>(h', e). ev_TransactionID e = tid)
                (drop (length (agent_fired ag)) (agent_fired ?ag')) = [(h, timeout_event tid)]) \<and>
         (now < d \<longrightarrow>
            map_of (agent_transactions ?ag') tid = Some (d, h) \<and>
            filter (\<lambda>(h', e). ev_TransactionID e = tid)
                (drop (length (agent_fired ag)) (agent_fired ?ag')) = [])"
    proof (intro conjI impI)
      assume due: "d \<le> now"
      show "map_of (agent_transactions ?ag') tid = None"
      proof (rule ccontr)
        assume "map_of (agent_transactions ?ag') tid \<noteq> None"
        then obtain v where "map_of (filter (\<lambda>(tid, d, h). now < d) ?ts) tid = Some v"
          using 2 by auto
        then have "(tid, v) \<in> set (filter (\<lambda>(tid, d, h). now < d) ?ts)"
          by (rule map_of_SomeD)
        then have "(tid, v) \<in> set ?ts" and "now < fst v" by auto
        then have "v = (d, h)" using mo dist by (metis map_of_is_SomeI option.inject)
        then show False using \<open>now < fst v\<close> due by simp
      qed
      show "filter (\<lambda>(h', e). ev_TransactionID e = tid)
                (drop (length (agent_fired ag)) (agent_fired ?ag')) = [(h, timeout_event tid)]"
        using due by (simp add: new events_of_key one)
    next
      assume late: "now < d"
      have "(tid, d, h) \<in> set (filter (\<lambda>(tid, d, h). now < d) ?ts)"
        using mem late by simp
      then show "map_of (agent_transactions ?ag') tid = Some (d, h)"
        using 2 dist' by simp
      show "filter (\<lambda>(h', e). ev_TransactionID e = tid)
                (drop (length (agent_fired ag)) (agent_fired ?ag')) = []"
        using late by (simp add: new events_of_key one)
    qed
  qed
  show ?thesis
    using 1 2 3 4 by (simp add: timeout_event_def)
qed

text \<open>The scenario of \<^verbatim>\<open>TestAgent_GC\<close>, with two and one registrations instead of five and five.\<close>

theorem Collect_times_out_due_registrations_witness:
  "distinct (map fst (agent_transactions gc_example)) \<and>
   agent_transactions (snd (Agent_Collect 101 gc_example)) =
     [([3, 3, 3, 3, 3, 3, 3, 3, 3, 3, 3, 3], 86501, 9)] \<and>
   agent_fired (snd (Agent_Collect 101 gc_example)) =
     [(8, \<lparr>ev_TransactionID = [1, 1, 1, 1, 1, 1, 1, 1, 1, 1, 1, 1], ev_Message = None,
           ev_Error = Some ErrTransactionTimeOut\<rparr>),
      (8, \<lparr>ev_TransactionID = [2, 2, 2, 2, 2, 2, 2, 2, 2, 2, 2, 2], ev_Message = None,
           ev_Error = Some ErrTransactionTimeOut\<rparr>)] \<and>
   map_of (agent_transactions (snd (Agent_Collect 101 gc_example)))
     [1, 1, 1, 1, 1, 1, 1, 1, 1, 1, 1, 1] = None \<and>
   map_of (agent_transactions (snd (Agent_Collect 101 gc_example)))
     [3, 3, 3, 3, 3, 3, 3, 3, 3, 3, 3, 3] = Some (86501, 9)"
proof -
  have d: "distinct (map fst (agent_transactions gc_example))"
    by (simp add: gc_example_def)
  have m1: "([1, 1, 1, 1, 1, 1, 1, 1, 1, 1, 1, 1], 100, 8) \<in> set (agent_transactions gc_example)"
    and m3: "([3, 3, 3, 3, 3, 3, 3, 3, 3, 3, 3, 3], 86501, 9) \<in> set (agent_transactions gc_example)"
    by (simp_all add: gc_example_def)
  note T = Collect_times_out_due_registrations [of 101 gc_example]
  from T have tr: "agent_transactions (snd (Agent_Collect 101 gc_example)) =
     filter (\<lambda>(tid, d, h). 101 < d) (agent_transactions gc_example)"
    by blast
  from T have fr: "agent_fired (snd (Agent_Collect 101 gc_example)) =
     agent_fired gc_example @
     map (\<lambda>(tid, d, h).
            (h, \<lparr>ev_TransactionID = tid, ev_Message = None, ev_Error = Some ErrTransactionTimeOut\<rparr>))
       (filter (\<lambda>(tid, d, h). d \<le> 101) (agent_transactions gc_example))"
    by blast
  from T d have all: "\<forall>(tid, d, h) \<in> set (agent_transactions gc_example).
         (d \<le> 101 \<longrightarrow>
            map_of (agent_transactions (snd (Agent_Collect 101 gc_example))) tid = None \<and>
            filter (\<lambda>(h', e). ev_TransactionID e = tid)
                (drop (length (agent_fired gc_example)) (agent_fired (snd (Agent_Collect 101 gc_example)))) =
              [(h, \<lparr>ev_TransactionID = tid, ev_Message = None,
                    ev_Error = Some ErrTransactionTimeOut\<rparr>)]) \<and>
         (101 < d \<longrightarrow>
            map_of (agent_transactions (snd (Agent_Collect 101 gc_example))) tid = Some (d, h) \<and>
            filter (\<lambda>(h', e). ev_TransactionID e = tid)
                (drop (length (agent_fired gc_example)) (agent_fired (snd (Agent_Collect 101 gc_example)))) = [])"
    by blast
  have a1: "map_of (agent_transactions (snd (Agent_Collect 101 gc_example)))
     [1, 1, 1, 1, 1, 1, 1, 1, 1, 1, 1, 1] = None"
    using bspec [OF all m1] by simp
  have a3: "map_of (agent_transactions (snd (Agent_Collect 101 gc_example)))
     [3, 3, 3, 3, 3, 3, 3, 3, 3, 3, 3, 3] = Some (86501, 9)"
    using bspec [OF all m3] by simp
  have tr': "agent_transactions (snd (Agent_Collect 101 gc_example)) =
     [([3, 3, 3, 3, 3, 3, 3, 3, 3, 3, 3, 3], 86501, 9)]"
    using tr by (simp add: gc_example_def)
  have fr': "agent_fired (snd (Agent_Collect 101 gc_example)) =
     [(8, \<lparr>ev_TransactionID = [1, 1, 1, 1, 1, 1, 1, 1, 1, 1, 1, 1], ev_Message = None,
           ev_Error = Some ErrTransactionTimeOut\<rparr>),
      (8, \<lparr>ev_TransactionID = [2, 2, 2, 2, 2, 2, 2, 2, 2, 2, 2, 2], ev_Message = None,
           ev_Error = Some ErrTransactionTimeOut\<rparr>)]"
    using fr by (simp add: gc_example_def)
  show ?thesis
    using d tr' fr' a1 a3 by blast
qed

end
